theory Spec2Isabelle
  imports Main "HOL-Library.Word" "HOL-Library.Sublist"
begin

section \<open>RFID access-control endpoint (espcode.ino)\<close>

text \<open>
  A shallow embedding of the ESP32 sketch \<^verbatim>\<open>src/espcode.ino\<close>: the card loop, the
  debounce check, the HTTP helper with its single redirect, the percent-encoder and
  the Wi-Fi connect loop. Hardware and network are an environment the sketch reads
  (link status, server replies); everything the sketch does to the outside is an
  event appended to a trace.
\<close>

subsection \<open>Characters and the Arduino String helpers\<close>

text \<open>The C locale's \<^verbatim>\<open>isalnum\<close>, on the byte value of the character.\<close>

definition isdigit :: "char \<Rightarrow> bool" where
  "isdigit c = (48 \<le> (of_char c :: nat) \<and> (of_char c :: nat) \<le> 57)"

definition isupper :: "char \<Rightarrow> bool" where
  "isupper c = (65 \<le> (of_char c :: nat) \<and> (of_char c :: nat) \<le> 90)"

definition islower :: "char \<Rightarrow> bool" where
  "islower c = (97 \<le> (of_char c :: nat) \<and> (of_char c :: nat) \<le> 122)"

definition isalnum :: "char \<Rightarrow> bool" where
  "isalnum c = (isdigit c \<or> isupper c \<or> islower c)"

text \<open>Digits of a number in base 16, most significant first, as \<^verbatim>\<open>%X\<close> and
  \<^verbatim>\<open>utoa(.., 16)\<close> write them.\<close>

definition upperDigits :: string where
  "upperDigits = ''0123456789ABCDEF''"

definition lowerDigits :: string where
  "lowerDigits = ''0123456789abcdef''"

fun toBase16 :: "string \<Rightarrow> nat \<Rightarrow> string" where
  "toBase16 ds n = (if n < 16 then [ds ! n] else toBase16 ds (n div 16) @ [ds ! (n mod 16)])"

declare toBase16.simps [simp del]

text \<open>\<^verbatim>\<open>sprintf(buf, "%%%02X", (uint8_t)c)\<close>: a percent sign, then the value in upper-case
  hexadecimal, padded with zeros to width 2.\<close>

definition sprintf_pct_02X :: "nat \<Rightarrow> string" where
  "sprintf_pct_02X v =
     (let ds = toBase16 upperDigits v
      in CHR ''%'' # replicate (2 - length ds) CHR ''0'' @ ds)"

text \<open>\<^verbatim>\<open>urlEncode\<close>: the loop over the characters of \<open>s\<close>, appending to \<open>out\<close>.\<close>

fun urlEncode_loop :: "string \<Rightarrow> string \<Rightarrow> string" where
  "urlEncode_loop [] out = out"
| "urlEncode_loop (c # cs) out =
     (if isalnum c \<or> c = CHR ''-'' \<or> c = CHR ''_'' \<or> c = CHR ''.'' \<or> c = CHR ''~''
      then urlEncode_loop cs (out @ [c])
      else urlEncode_loop cs (out @ sprintf_pct_02X (of_char c)))"

definition urlEncode :: "string \<Rightarrow> string" where
  "urlEncode s = urlEncode_loop s []"

text \<open>A \<^verbatim>\<open>String\<close> is its sequence of bytes, of any value. A C function reads of its
  buffer the C string only: the bytes before the first NUL.\<close>

definition cstr :: "string \<Rightarrow> string" where
  "cstr s = takeWhile (\<lambda>c. c \<noteq> CHR 0x00) s"

text \<open>\<^verbatim>\<open>strstr\<close> from position \<open>i\<close> of the receiver's buffer, \<open>pat\<close> being the C string
  searched for: the first position at which \<open>pat\<close> stands, or \<open>-1\<close>. The search ends at
  the first NUL byte, so nothing behind it is found.\<close>

fun strstr_from :: "nat \<Rightarrow> string \<Rightarrow> string \<Rightarrow> int" where
  "strstr_from i [] pat = (if pat = [] then int i else -1)"
| "strstr_from i (c # cs) pat =
     (if prefix pat (cstr (c # cs)) then int i
      else if c = CHR 0x00 then -1
      else strstr_from (Suc i) cs pat)"

text \<open>\<^verbatim>\<open>String::indexOf(const String&)\<close>: \<open>-1\<close> at once on an empty receiver; otherwise
  \<^verbatim>\<open>strstr\<close> on the two buffers.\<close>

definition indexOf :: "string \<Rightarrow> string \<Rightarrow> int" where
  "indexOf s pat = (if s = [] then -1 else strstr_from 0 s (cstr pat))"

text \<open>\<^verbatim>\<open>String::toUpperCase\<close> and \<^verbatim>\<open>String(value, HEX)\<close>.\<close>

definition toupper :: "char \<Rightarrow> char" where
  "toupper c = (if islower c then char_of ((of_char c :: nat) - 32) else c)"

definition toUpperCase :: "string \<Rightarrow> string" where
  "toUpperCase s = map toupper s"

definition String_HEX :: "8 word \<Rightarrow> string" where
  "String_HEX b = toBase16 lowerDigits (unat b)"

text \<open>\<^verbatim>\<open>String(int)\<close>: the decimal rendering, with a minus sign for negative values.\<close>

fun toBase10 :: "nat \<Rightarrow> string" where
  "toBase10 n = (if n < 10 then [upperDigits ! n] else toBase10 (n div 10) @ [upperDigits ! (n mod 10)])"

declare toBase10.simps [simp del]

definition String_int :: "int \<Rightarrow> string" where
  "String_int v = (if v < 0 then CHR ''-'' # toBase10 (nat (- v)) else toBase10 (nat v))"

subsection \<open>Configuration\<close>

definition GREEN_LED_PIN :: nat where "GREEN_LED_PIN = 25"
definition RED_LED_PIN :: nat where "RED_LED_PIN = 26"
definition BUZZER_PIN :: nat where "BUZZER_PIN = 27"

definition WIFI_SSID :: string where
  "WIFI_SSID = ''Xiaomi11i''"

definition WIFI_PASSWORD :: string where
  "WIFI_PASSWORD = ''Pass(0)18''"

definition SCRIPT_BASE :: string where
  "SCRIPT_BASE = ''https://script.google.com/macros/s/AKfycbyEGUR1FRdfk7YMI5OBE2xLlGyZv86cK07ym2Ysjng2Kg0MwkFHF4OCLEy446Isw617/exec''"

definition TOKEN :: string where
  "TOKEN = ''RSP505''"

definition CARD_DEBOUNCE :: "32 word" where "CARD_DEBOUNCE = 2000"
definition WIFI_CHECK_INTERVAL :: "32 word" where "WIFI_CHECK_INTERVAL = 30000"

subsection \<open>The world of the sketch\<close>

text \<open>What the sketch does to the outside, in program order: pin writes, blocking
  delays, the diagnostic port (\<^verbatim>\<open>Serial\<close>), the peer line (\<^verbatim>\<open>espSerial\<close>), the calls on
  the \<^verbatim>\<open>HTTPClient\<close>, on \<^verbatim>\<open>WiFi\<close> and on the card reader.\<close>

datatype event =
    DigitalWrite nat bool
  | Delay nat
  | SerialPrint string
  | SerialPrintln string
  | EspSerialPrintln string
  | HttpBegin string
  | HttpSetTimeout nat
  | HttpGET
  | HttpGetLocation
  | HttpGetString
  | HttpEnd
  | WifiMode
  | WifiBegin string string
  | PiccHaltA
  | PcdStopCrypto1

text \<open>What one \<^verbatim>\<open>http.GET()\<close> yields: the returned code (an HTTP status, or a negative
  client error), the Location header, the body, and the milliseconds the call took.\<close>

record reply =
  status :: int
  location :: string
  body :: string
  took :: nat

text \<open>The environment: the link status and the server's answers, both as functions of
  the time (in milliseconds) at which the sketch asks.\<close>

record env =
  linkUp :: "nat \<Rightarrow> bool"
  server :: "nat \<Rightarrow> string \<Rightarrow> reply"
  localIP :: string

text \<open>The globals of the sketch, the time, and the trace of events so far.
  \<^verbatim>\<open>unsigned long\<close> is 32 bits wide on the ESP32, so \<^verbatim>\<open>millis()\<close> is the time modulo
  \<open>2 ^ 32\<close>. Time is counted in milliseconds; \<^verbatim>\<open>delay\<close> and \<^verbatim>\<open>http.GET()\<close> move it, and
  every other statement is taken to cost none.\<close>

record world =
  lastUID :: string
  lastCardRead :: "32 word"
  lastWifiCheck :: "32 word"
  clock :: nat
  trace :: "event list"

definition millis :: "world \<Rightarrow> 32 word" where
  "millis w = of_nat (clock w)"

definition emit :: "event \<Rightarrow> world \<Rightarrow> world" where
  "emit ev w = w\<lparr>trace := trace w @ [ev]\<rparr>"

definition delay :: "nat \<Rightarrow> world \<Rightarrow> world" where
  "delay ms w = emit (Delay ms) (w\<lparr>clock := clock w + ms\<rparr>)"

definition digitalWrite :: "nat \<Rightarrow> bool \<Rightarrow> world \<Rightarrow> world" where
  "digitalWrite pin level = emit (DigitalWrite pin level)"

definition Serial_print :: "string \<Rightarrow> world \<Rightarrow> world" where
  "Serial_print s = emit (SerialPrint s)"

definition Serial_println :: "string \<Rightarrow> world \<Rightarrow> world" where
  "Serial_println s = emit (SerialPrintln s)"

definition espSerial_println :: "string \<Rightarrow> world \<Rightarrow> world" where
  "espSerial_println s = emit (EspSerialPrintln s)"

definition PICC_HaltA :: "world \<Rightarrow> world" where
  "PICC_HaltA = emit PiccHaltA"

definition PCD_StopCrypto1 :: "world \<Rightarrow> world" where
  "PCD_StopCrypto1 = emit PcdStopCrypto1"

definition WiFi_connected :: "env \<Rightarrow> world \<Rightarrow> bool" where
  "WiFi_connected e w = linkUp e (clock w)"

text \<open>Statements in sequence, first to last.\<close>

definition seq :: "(world \<Rightarrow> world) list \<Rightarrow> world \<Rightarrow> world" where
  "seq stmts w = foldl (\<lambda>w' stmt. stmt w') w stmts"

subsection \<open>Feedback patterns\<close>

definition signalSuccess :: "world \<Rightarrow> world" where
  "signalSuccess =
     seq [digitalWrite GREEN_LED_PIN True,
          digitalWrite BUZZER_PIN True,
          delay 200,
          digitalWrite BUZZER_PIN False,
          delay 1800,
          digitalWrite GREEN_LED_PIN False]"

text \<open>The \<^verbatim>\<open>for\<close> loop of \<^verbatim>\<open>signalFailure\<close>, from \<open>i\<close> up to 3.\<close>

function signalFailure_loop :: "nat \<Rightarrow> world \<Rightarrow> world" where
  "signalFailure_loop i w =
     (if i < 3
      then signalFailure_loop (i + 1)
             (seq [digitalWrite BUZZER_PIN True, delay 100,
                   digitalWrite BUZZER_PIN False, delay 100] w)
      else w)"
  by pat_completeness auto
termination
  by (relation "measure (\<lambda>(i, w). 3 - i)") auto

declare signalFailure_loop.simps [simp del]

definition signalFailure :: "world \<Rightarrow> world" where
  "signalFailure =
     seq [digitalWrite RED_LED_PIN True,
          signalFailure_loop 0,
          delay 1500,
          digitalWrite RED_LED_PIN False]"

definition signalCardRead :: "world \<Rightarrow> world" where
  "signalCardRead =
     seq [digitalWrite BUZZER_PIN True, delay 50, digitalWrite BUZZER_PIN False]"

subsection \<open>The HTTP helper\<close>

definition http_begin :: "string \<Rightarrow> world \<Rightarrow> world" where
  "http_begin url = emit (HttpBegin url)"

definition http_setTimeout :: "nat \<Rightarrow> world \<Rightarrow> world" where
  "http_setTimeout ms = emit (HttpSetTimeout ms)"

definition http_end :: "world \<Rightarrow> world" where
  "http_end = emit HttpEnd"

text \<open>\<^verbatim>\<open>http.GET()\<close> on the URL the client was begun with: the server's reply at this
  moment; the call blocks for as long as the reply took.\<close>

definition http_GET :: "env \<Rightarrow> string \<Rightarrow> world \<Rightarrow> reply \<times> world" where
  "http_GET e url w =
     (let r = server e (clock w) url
      in (r, emit HttpGET (w\<lparr>clock := clock w + took r\<rparr>)))"

text \<open>\<^verbatim>\<open>bool httpGET(const String &url, String &resp, int &code)\<close>: the result is the
  returned flag with the final values of the two reference parameters. \<open>resp\<close> is the
  caller's value on entry; \<open>code\<close> is assigned on every path.\<close>

definition httpGET :: "env \<Rightarrow> string \<Rightarrow> string \<Rightarrow> world \<Rightarrow> (bool \<times> string \<times> int) \<times> world" where
  "httpGET e url resp w =
     (if \<not> WiFi_connected e w then ((False, ''no_wifi'', - 1), w)
      else
        let (r1, w1) = http_GET e url (seq [http_begin url, http_setTimeout 10000] w);
            (r, w2) =
              (if status r1 = 302 \<or> status r1 = 301
               then
                 let newUrl = location r1
                 in http_GET e newUrl
                      (seq [emit HttpGetLocation, http_end,
                            http_begin newUrl, http_setTimeout 10000] w1)
               else (r1, w1));
            code = status r;
            (resp', w3) = (if code > 0 then (body r, emit HttpGetString w2) else (resp, w2))
        in ((code = 200, resp', code), http_end w3))"

subsection \<open>The access decision\<close>

text \<open>Line 113: the URL of the request for a card.\<close>

definition requestUrl :: "string \<Rightarrow> string" where
  "requestUrl uid =
     SCRIPT_BASE @ ''?mode=check_and_toggle&uid='' @ urlEncode uid
       @ ''&token='' @ urlEncode TOKEN"

text \<open>\<^verbatim>\<open>String resp\<close> is empty when \<^verbatim>\<open>httpGET\<close> is called.\<close>

definition handleRequest :: "env \<Rightarrow> string \<Rightarrow> world \<Rightarrow> world" where
  "handleRequest e uid w =
     (let url = requestUrl uid;
          ((ok, resp, code), w1) = httpGET e url [] w
      in if ok then
           let w2 = Serial_println (''Server response: '' @ resp) w1
           in if indexOf resp ''session_started'' \<ge> 0 then
                seq [Serial_println ''Session started successfully.'',
                     espSerial_println ''Access Granted!'',
                     signalSuccess] w2
              else if indexOf resp ''session_ended'' \<ge> 0 then
                seq [Serial_println ''Session ended successfully.'',
                     espSerial_println ''Session Ended'',
                     signalSuccess] w2
              else
                seq [Serial_println ''Unknown or denied response.'',
                     espSerial_println ''Access Denied'',
                     signalFailure] w2
         else
           seq [Serial_println (''Request failed: '' @ resp @ '' (Code: '' @ String_int code @ '')''),
                espSerial_println ''Request Failed'',
                signalFailure] w1)"

subsection \<open>Reading a card\<close>

text \<open>The loop of \<^verbatim>\<open>readRFIDCard\<close> over the first \<^verbatim>\<open>uid.size\<close> bytes of \<^verbatim>\<open>uid.uidByte\<close>.\<close>

fun cardUID_loop :: "8 word list \<Rightarrow> string \<Rightarrow> string" where
  "cardUID_loop [] cardUID = cardUID"
| "cardUID_loop (b # bs) cardUID =
     cardUID_loop bs ((cardUID @ (if b < 0x10 then ''0'' else [])) @ String_HEX b)"

text \<open>Lines 141 to 146: the identifier, two upper-case hexadecimal digits per byte.\<close>

definition cardUID_of :: "8 word list \<Rightarrow> string" where
  "cardUID_of uidByte = toUpperCase (cardUID_loop uidByte [])"

definition readRFIDCard :: "env \<Rightarrow> 8 word list \<Rightarrow> world \<Rightarrow> world" where
  "readRFIDCard e uidByte w =
     (let cardUID = cardUID_of uidByte;
          w1 = seq [Serial_print ''Employee UID: '', Serial_println cardUID] w
      in if cardUID = lastUID w1 \<and> millis w1 - lastCardRead w1 < CARD_DEBOUNCE
         then seq [Serial_println ''Card debounced - ignoring'',
                   PICC_HaltA, PCD_StopCrypto1] w1
         else
           let w2 = seq [signalCardRead,
                         Serial_println ''Processing employee card...'',
                         handleRequest e cardUID] w1
           in seq [PICC_HaltA, PCD_StopCrypto1,
                   Serial_println ''Card processing complete'']
                (w2\<lparr>lastUID := cardUID\<rparr>))"

subsection \<open>Connecting to Wi-Fi\<close>

text \<open>The \<^verbatim>\<open>while\<close> loop of \<^verbatim>\<open>wifiConnect\<close>. It ends: every turn adds 500 to the elapsed
  time, which the guard keeps below 20000.\<close>

function wifiConnect_wait :: "env \<Rightarrow> 32 word \<Rightarrow> world \<Rightarrow> world" where
  "wifiConnect_wait e connectStart w =
     (if \<not> WiFi_connected e w \<and> millis w - connectStart < 20000
      then wifiConnect_wait e connectStart (seq [delay 500, Serial_print ''.''] w)
      else w)"
  by pat_completeness auto

termination
proof (relation "measure (\<lambda>(e, connectStart, w). 20000 - unat (millis w - connectStart))")
  show "wf (measure (\<lambda>(e, connectStart, w). 20000 - unat (millis w - connectStart)))"
    by simp
next
  fix e :: env and connectStart :: "32 word" and w :: world
  assume guard: "\<not> WiFi_connected e w \<and> millis w - connectStart < 20000"
  define x where "x = millis w - connectStart"
  define x' where "x' = millis (seq [delay 500, Serial_print ''.''] w) - connectStart"
  have below: "unat x < 20000"
    using guard by (simp add: x_def word_less_nat_alt)
  have "x' = x + 500"
    by (simp add: x_def x'_def seq_def delay_def Serial_print_def emit_def millis_def)
  then have "unat x' = unat x + 500"
    using below by (simp add: unat_word_ariths)
  then have "20000 - unat x' < 20000 - unat x"
    using below by simp
  then show "((e, connectStart, seq [delay 500, Serial_print ''.''] w), (e, connectStart, w))
      \<in> measure (\<lambda>(e, connectStart, w). 20000 - unat (millis w - connectStart))"
    by (simp add: x_def x'_def)
qed

declare wifiConnect_wait.simps [simp del]

definition WiFi_mode :: "world \<Rightarrow> world" where
  "WiFi_mode = emit WifiMode"

definition WiFi_begin :: "string \<Rightarrow> string \<Rightarrow> world \<Rightarrow> world" where
  "WiFi_begin ssid password = emit (WifiBegin ssid password)"

text \<open>\<^verbatim>\<open>void wifiConnect()\<close>: nothing is returned; the outcome shows on the diagnostic port
  and on the red LED only.\<close>

definition wifiConnect :: "env \<Rightarrow> world \<Rightarrow> world" where
  "wifiConnect e w =
     (let w1 = seq [Serial_print ''Connecting to WiFi: '', Serial_println WIFI_SSID,
                    WiFi_mode, WiFi_begin WIFI_SSID WIFI_PASSWORD] w;
          connectStart = millis w1;
          w2 = wifiConnect_wait e connectStart w1
      in if WiFi_connected e w2
         then seq [Serial_println (CHR 0x0A # ''Connected to WiFi!''),
                   Serial_print ''IP address: '',
                   Serial_println (localIP e)] w2
         else seq [Serial_println (CHR 0x0A # ''WiFi connection failed!''),
                   digitalWrite RED_LED_PIN True] w2)"

subsection \<open>The main loop\<close>

text \<open>What the reader answers in one turn of \<^verbatim>\<open>loop\<close>: no new card; a new card whose
  serial could not be read; or a new card with the bytes of its UID.\<close>

datatype reader = NoCard | ReadFailed | CardSerial "8 word list"

text \<open>Lines 92 to 100: the card branch.\<close>

definition loop_card :: "env \<Rightarrow> reader \<Rightarrow> world \<Rightarrow> world" where
  "loop_card e rd w =
     (case rd of
        NoCard \<Rightarrow> w
      | CardSerial uidByte \<Rightarrow>
          (let w1 = readRFIDCard e uidByte w
           in w1\<lparr>lastCardRead := millis w1\<rparr>)
      | ReadFailed \<Rightarrow>
          seq [Serial_println ''Failed to read card serial'', signalFailure] w)"

text \<open>Lines 102 to 108: the periodic link check.\<close>

definition loop_wifi :: "env \<Rightarrow> world \<Rightarrow> world" where
  "loop_wifi e w =
     (if millis w - lastWifiCheck w > WIFI_CHECK_INTERVAL
      then
        let w1 = (if \<not> WiFi_connected e w
                  then seq [Serial_println ''WiFi disconnected, reconnecting...'',
                            wifiConnect e] w
                  else w)
        in w1\<lparr>lastWifiCheck := millis w1\<rparr>
      else w)"

definition loop :: "env \<Rightarrow> reader \<Rightarrow> world \<Rightarrow> world" where
  "loop e rd w = delay 100 (loop_wifi e (loop_card e rd w))"

text \<open>The runtime calls \<^verbatim>\<open>loop\<close> again and again; the reader's answers are the input.\<close>

definition run :: "env \<Rightarrow> reader list \<Rightarrow> world \<Rightarrow> world" where
  "run e rds w = foldl (\<lambda>w' rd. loop e rd w') w rds"

text \<open>The world when \<^verbatim>\<open>loop\<close> is first entered: the globals as the sketch initialises
  them, the clock at \<open>t\<close>, and the trace starting there.\<close>

definition initial :: "nat \<Rightarrow> world" where
  "initial t = \<lparr>lastUID = [], lastCardRead = 0, lastWifiCheck = 0, clock = t, trace = []\<rparr>"

subsection \<open>Observing a trace\<close>

text \<open>The lines sent to the peer, in order.\<close>

fun peerLines :: "event list \<Rightarrow> string list" where
  "peerLines [] = []"
| "peerLines (EspSerialPrintln s # evs) = s # peerLines evs"
| "peerLines (ev # evs) = peerLines evs"

text \<open>The indicator activity: pin writes and the blocking delays between them.\<close>

fun isIndicator :: "event \<Rightarrow> bool" where
  "isIndicator (DigitalWrite pin level) = True"
| "isIndicator (Delay ms) = True"
| "isIndicator ev = False"

definition feedback :: "event list \<Rightarrow> event list" where
  "feedback evs = filter isIndicator evs"

text \<open>The calls on the HTTP client.\<close>

fun isHttp :: "event \<Rightarrow> bool" where
  "isHttp (HttpBegin url) = True"
| "isHttp (HttpSetTimeout ms) = True"
| "isHttp HttpGET = True"
| "isHttp HttpGetLocation = True"
| "isHttp HttpGetString = True"
| "isHttp HttpEnd = True"
| "isHttp ev = False"

definition httpCalls :: "event list \<Rightarrow> event list" where
  "httpCalls evs = filter isHttp evs"

subsection \<open>The specification's vocabulary\<close>

text \<open>The specification names what the sketch leaves implicit: the outcome of a
  request and the result of a card event. The definitions of this subsection follow
  the specification's words; the theorems compare them with the code above.\<close>

datatype RequestOutcome = TransportFailure | HttpFailure int | Success string

datatype AccessResult = Granted | Ended | Denied | RequestFailed

text \<open>How \<^verbatim>\<open>handleRequest\<close> sees an outcome: the flag, \<open>resp\<close> and \<open>code\<close> that \<^verbatim>\<open>httpGET\<close>
  hands back, \<open>resp\<close> having been empty before. The link-down path alone leaves
  \<^verbatim>\<open>"no_wifi"\<close> with code \<open>-1\<close>.\<close>

fun outcome_of :: "bool \<times> string \<times> int \<Rightarrow> RequestOutcome" where
  "outcome_of (ok, resp, code) =
     (if ok then Success resp
      else if resp = ''no_wifi'' \<and> code = - 1 then TransportFailure
      else HttpFailure code)"

text \<open>Section 4.4, step 5: the classification, in its priority order.\<close>

fun classify_spec :: "RequestOutcome \<Rightarrow> AccessResult" where
  "classify_spec (Success b) =
     (if sublist ''session_started'' b then Granted
      else if sublist ''session_ended'' b then Ended
      else Denied)"
| "classify_spec TransportFailure = RequestFailed"
| "classify_spec (HttpFailure code) = RequestFailed"

text \<open>Section 4.6: the four lines for the peer.\<close>

fun peerLine_spec :: "AccessResult \<Rightarrow> string" where
  "peerLine_spec Granted = ''Access Granted!''"
| "peerLine_spec Ended = ''Session Ended''"
| "peerLine_spec Denied = ''Access Denied''"
| "peerLine_spec RequestFailed = ''Request Failed''"

text \<open>Section 4.5: the two feedback patterns, as indicator events.\<close>

definition successPattern :: "event list" where
  "successPattern =
     [DigitalWrite GREEN_LED_PIN True, DigitalWrite BUZZER_PIN True, Delay 200,
      DigitalWrite BUZZER_PIN False, Delay 1800, DigitalWrite GREEN_LED_PIN False]"

definition failurePattern :: "event list" where
  "failurePattern =
     [DigitalWrite RED_LED_PIN True,
      DigitalWrite BUZZER_PIN True, Delay 100, DigitalWrite BUZZER_PIN False, Delay 100,
      DigitalWrite BUZZER_PIN True, Delay 100, DigitalWrite BUZZER_PIN False, Delay 100,
      DigitalWrite BUZZER_PIN True, Delay 100, DigitalWrite BUZZER_PIN False, Delay 100,
      Delay 1500, DigitalWrite RED_LED_PIN False]"

fun pattern_spec :: "AccessResult \<Rightarrow> event list" where
  "pattern_spec Granted = successPattern"
| "pattern_spec Ended = successPattern"
| "pattern_spec Denied = failurePattern"
| "pattern_spec RequestFailed = failurePattern"

text \<open>Section 4.3 as worded: suppress when the identifier is the one accepted last and
  less than the cooldown has passed since that accepted read.\<close>

definition suppress_spec :: "string \<Rightarrow> nat \<Rightarrow> string \<Rightarrow> nat \<Rightarrow> bool" where
  "suppress_spec lastAccepted lastAcceptedTime identifier now =
     (identifier = lastAccepted \<and> now - lastAcceptedTime < 2000)"

text \<open>Section 4.2: the reply to the first GET, and the reply that counts as final, after
  at most one redirect.\<close>

definition firstReply :: "env \<Rightarrow> string \<Rightarrow> world \<Rightarrow> reply" where
  "firstReply e url w = server e (clock w) url"

definition isRedirect :: "reply \<Rightarrow> bool" where
  "isRedirect r = (status r = 301 \<or> status r = 302)"

definition finalReply :: "env \<Rightarrow> string \<Rightarrow> world \<Rightarrow> reply" where
  "finalReply e url w =
     (let r1 = firstReply e url w
      in if isRedirect r1 then server e (clock w + took r1) (location r1) else r1)"

subsection \<open>Auxiliary notions\<close>

text \<open>The calls one \<^verbatim>\<open>httpGET\<close> makes on the client while the link is up, and the time
  it blocks.\<close>

definition httpEvents :: "env \<Rightarrow> string \<Rightarrow> world \<Rightarrow> event list" where
  "httpEvents e url w =
     [HttpBegin url, HttpSetTimeout 10000, HttpGET]
     @ (if isRedirect (firstReply e url w)
        then [HttpGetLocation, HttpEnd,
              HttpBegin (location (firstReply e url w)), HttpSetTimeout 10000, HttpGET]
        else [])
     @ (if 0 < status (finalReply e url w) then [HttpGetString] else [])
     @ [HttpEnd]"

definition httpTime :: "env \<Rightarrow> string \<Rightarrow> world \<Rightarrow> nat" where
  "httpTime e url w =
     (if isRedirect (firstReply e url w)
      then took (firstReply e url w) + took (finalReply e url w)
      else took (firstReply e url w))"

text \<open>What one turn of the encoder's loop appends for a character.\<close>

definition encodeChar :: "char \<Rightarrow> string" where
  "encodeChar c =
     (if isalnum c \<or> c = CHR ''-'' \<or> c = CHR ''_'' \<or> c = CHR ''.'' \<or> c = CHR ''~''
      then [c] else sprintf_pct_02X (of_char c))"

text \<open>An outcome as \<^verbatim>\<open>indexOf\<close> reads it: of the body of a success, the C string.\<close>

fun seen :: "RequestOutcome \<Rightarrow> RequestOutcome" where
  "seen (Success b) = Success (cstr b)"
| "seen TransportFailure = TransportFailure"
| "seen (HttpFailure code) = HttpFailure code"

text \<open>The result of a card event: the classification of what \<^verbatim>\<open>httpGET\<close> hands back to
  \<^verbatim>\<open>handleRequest\<close>, as \<^verbatim>\<open>indexOf\<close> reads it.\<close>

definition accessResult :: "env \<Rightarrow> string \<Rightarrow> world \<Rightarrow> AccessResult" where
  "accessResult e uid w =
     classify_spec (seen (outcome_of (fst (httpGET e (requestUrl uid) [] w))))"

text \<open>The world in which \<^verbatim>\<open>handleRequest\<close> is called for an accepted card: the identifier
  has been printed and the read acknowledged (lines 147 to 158).\<close>

definition presented :: "8 word list \<Rightarrow> world \<Rightarrow> world" where
  "presented uidByte w =
     w\<lparr>clock := clock w + 50,
       trace := trace w @
         [SerialPrint ''Employee UID: '', SerialPrintln (cardUID_of uidByte),
          DigitalWrite BUZZER_PIN True, Delay 50, DigitalWrite BUZZER_PIN False,
          SerialPrintln ''Processing employee card...'']\<rparr>"

text \<open>The dots printed while waiting for the link, one per poll.\<close>

definition polls :: "nat \<Rightarrow> event list" where
  "polls k = concat (replicate k [Delay 500, SerialPrint ''.''])"

subsection \<open>Concrete inputs\<close>

text \<open>A card, and two environments: the link up and the server granting; and the link
  down throughout. The examples start the clock at 0 when \<^verbatim>\<open>loop\<close> is first entered.\<close>

definition badge :: "8 word list" where
  "badge = [0xDE, 0xAD, 0xBE, 0xEF]"

definition granting :: env where
  "granting =
     \<lparr>linkUp = (\<lambda>t. True),
      server = (\<lambda>t url. \<lparr>status = 200, location = [], body = ''session_started'', took = 300\<rparr>),
      localIP = ''192.168.1.7''\<rparr>"

definition offline :: env where
  "offline =
     \<lparr>linkUp = (\<lambda>t. False),
      server = (\<lambda>t url. \<lparr>status = - 1, location = [], body = [], took = 0\<rparr>),
      localIP = []\<rparr>"

text \<open>The reader's answers over 25 turns of the loop: the card; 18 turns without a card;
  the card again; five turns without a card.\<close>

definition heldCard :: "reader list" where
  "heldCard = CardSerial badge # replicate 18 NoCard @ CardSerial badge # replicate 5 NoCard"

text \<open>A link that comes up when the clock shows one second.\<close>

definition lateLink :: env where
  "lateLink =
     \<lparr>linkUp = (\<lambda>t. 1000 \<le> t),
      server = (\<lambda>t url. \<lparr>status = 200, location = [], body = ''session_started'', took = 300\<rparr>),
      localIP = ''192.168.1.7''\<rparr>"

text \<open>A server whose 200 answer holds a NUL byte in front of the marker.\<close>

definition nulBody :: env where
  "nulBody =
     \<lparr>linkUp = (\<lambda>t. True),
      server = (\<lambda>t url. \<lparr>status = 200, location = [],
                           body = CHR ''x'' # CHR 0x00 # ''session_started'', took = 300\<rparr>),
      localIP = ''192.168.1.7''\<rparr>"

text \<open>A server that redirects \<open>A\<close> to \<open>B\<close> and \<open>B\<close> to \<open>C\<close>.\<close>

definition chain :: env where
  "chain =
     \<lparr>linkUp = (\<lambda>t. True),
      server = (\<lambda>t url.
        if url = ''A'' then \<lparr>status = 302, location = ''B'', body = ''to B'', took = 40\<rparr>
        else if url = ''B'' then \<lparr>status = 302, location = ''C'', body = ''to C'', took = 40\<rparr>
        else \<lparr>status = 200, location = [], body = ''session_started'', took = 40\<rparr>),
      localIP = ''192.168.1.7''\<rparr>"

section \<open>Properties\<close>

subsection \<open>Percent-encoding\<close>

lemma isalnum_chars:
  "isalnum c \<longleftrightarrow> c \<in> set ''ABCDEFGHIJKLMNOPQRSTUVWXYZabcdefghijklmnopqrstuvwxyz0123456789''"
  by (cases c) (simp add: isalnum_def isdigit_def isupper_def islower_def)

lemma toBase16_byte:
  assumes "v < 256"
  shows "toBase16 ds v = (if v < 16 then [ds ! v] else [ds ! (v div 16), ds ! (v mod 16)])"
proof (cases "v < 16")
  case True
  then show ?thesis by (simp add: toBase16.simps [of ds v])
next
  case False
  from assms have "v div 16 < 16" by simp
  then have "toBase16 ds (v div 16) = [ds ! (v div 16)]"
    by (simp add: toBase16.simps [of ds "v div 16"])
  with False show ?thesis by (simp add: toBase16.simps [of ds v])
qed

lemma sprintf_pct_02X_byte:
  assumes "v < 256"
  shows "sprintf_pct_02X v = [CHR ''%'', upperDigits ! (v div 16), upperDigits ! (v mod 16)]"
proof (cases "v < 16")
  case True
  then show ?thesis
    by (simp add: sprintf_pct_02X_def toBase16_byte [OF assms] upperDigits_def)
next
  case False
  then show ?thesis
    by (simp add: sprintf_pct_02X_def toBase16_byte [OF assms])
qed

lemma urlEncode_loop_concat:
  "urlEncode_loop s out = out @ concat (map encodeChar s)"
  by (induction s arbitrary: out) (simp_all add: encodeChar_def)

text \<open>
  \<^bold>\<open>C8.\<close> \<^verbatim>\<open>urlEncode\<close> copies every character among the letters, the digits and
  \<^verbatim>\<open>- _ . ~\<close> unchanged, and writes every other character as a percent sign followed
  by exactly two upper-case hexadecimal digits: that of the high four bits of its byte
  value, then that of the low four bits. So \<^verbatim>\<open>DEADBEEF\<close> and \<^verbatim>\<open>RSP505\<close> encode to
  themselves, and a space to \<^verbatim>\<open>%20\<close>.
\<close>

theorem urlEncode_percent_encoding:
  "urlEncode s =
     concat (map (\<lambda>c.
       if c \<in> set ''ABCDEFGHIJKLMNOPQRSTUVWXYZabcdefghijklmnopqrstuvwxyz0123456789-_.~''
       then [c]
       else [CHR ''%'', ''0123456789ABCDEF'' ! (of_char c div 16),
                        ''0123456789ABCDEF'' ! (of_char c mod 16)]) s)
   \<and> urlEncode ''DEADBEEF'' = ''DEADBEEF''
   \<and> urlEncode ''RSP505'' = ''RSP505''
   \<and> urlEncode '' '' = ''%20''"
proof -
  have pieces: "encodeChar c =
      (if c \<in> set ''ABCDEFGHIJKLMNOPQRSTUVWXYZabcdefghijklmnopqrstuvwxyz0123456789-_.~''
       then [c]
       else [CHR ''%'', ''0123456789ABCDEF'' ! (of_char c div 16),
                        ''0123456789ABCDEF'' ! (of_char c mod 16)])" for c
  proof -
    have "(isalnum c \<or> c = CHR ''-'' \<or> c = CHR ''_'' \<or> c = CHR ''.'' \<or> c = CHR ''~'')
        = (c \<in> set ''ABCDEFGHIJKLMNOPQRSTUVWXYZabcdefghijklmnopqrstuvwxyz0123456789-_.~'')"
      unfolding isalnum_chars by auto
    then show ?thesis
      by (simp only: encodeChar_def sprintf_pct_02X_byte [OF nat_of_char_less_256] upperDigits_def)
  qed
  have general: "urlEncode t = concat (map encodeChar t)" for t
    by (simp add: urlEncode_def urlEncode_loop_concat)
  have ex1: "urlEncode ''DEADBEEF'' = ''DEADBEEF''"
    by (simp add: general pieces)
  have ex2: "urlEncode ''RSP505'' = ''RSP505''"
    by (simp add: general pieces)
  have ex3: "urlEncode '' '' = ''%20''"
    by (simp add: general pieces)
  have "urlEncode s = concat (map encodeChar s)"
    by (rule general)
  also have "encodeChar = (\<lambda>c.
       if c \<in> set ''ABCDEFGHIJKLMNOPQRSTUVWXYZabcdefghijklmnopqrstuvwxyz0123456789-_.~''
       then [c]
       else [CHR ''%'', ''0123456789ABCDEF'' ! (of_char c div 16),
                        ''0123456789ABCDEF'' ! (of_char c mod 16)])"
    by (rule ext) (rule pieces)
  finally show ?thesis
    using ex1 ex2 ex3 by (simp only: simp_thms)
qed

subsection \<open>Effects of the building blocks\<close>

lemmas ops = seq_def emit_def delay_def digitalWrite_def Serial_print_def Serial_println_def
  espSerial_println_def PICC_HaltA_def PCD_StopCrypto1_def http_begin_def http_setTimeout_def
  http_end_def WiFi_mode_def WiFi_begin_def

lemma signalSuccess_effect:
  "signalSuccess w = w\<lparr>clock := clock w + 2000, trace := trace w @ successPattern\<rparr>"
  by (simp add: signalSuccess_def successPattern_def ops)

lemma signalFailure_loop_step:
  "i < 3 \<Longrightarrow> signalFailure_loop i w =
     signalFailure_loop (Suc i)
       (seq [digitalWrite BUZZER_PIN True, delay 100,
             digitalWrite BUZZER_PIN False, delay 100] w)"
  by (subst signalFailure_loop.simps) simp

lemma signalFailure_loop_exit: "\<not> i < 3 \<Longrightarrow> signalFailure_loop i w = w"
  by (subst signalFailure_loop.simps) simp

lemma signalFailure_loop_effect:
  "signalFailure_loop 0 w = w\<lparr>clock := clock w + 600, trace := trace w @
      [DigitalWrite BUZZER_PIN True, Delay 100, DigitalWrite BUZZER_PIN False, Delay 100,
       DigitalWrite BUZZER_PIN True, Delay 100, DigitalWrite BUZZER_PIN False, Delay 100,
       DigitalWrite BUZZER_PIN True, Delay 100, DigitalWrite BUZZER_PIN False, Delay 100]\<rparr>"
  by (simp add: signalFailure_loop_step signalFailure_loop_exit ops)

lemma signalFailure_effect:
  "signalFailure w = w\<lparr>clock := clock w + 2100, trace := trace w @ failurePattern\<rparr>"
  by (simp add: signalFailure_def failurePattern_def signalFailure_loop_effect ops)

lemma signalCardRead_effect:
  "signalCardRead w = w\<lparr>clock := clock w + 50, trace := trace w @
     [DigitalWrite BUZZER_PIN True, Delay 50, DigitalWrite BUZZER_PIN False]\<rparr>"
  by (simp add: signalCardRead_def ops)

lemma httpGET_down:
  "\<not> WiFi_connected e w \<Longrightarrow> httpGET e url resp w = ((False, ''no_wifi'', - 1), w)"
  by (simp add: httpGET_def)

lemma httpGET_up:
  "WiFi_connected e w \<Longrightarrow>
   httpGET e url resp w =
     ((status (finalReply e url w) = 200,
       (if 0 < status (finalReply e url w) then body (finalReply e url w) else resp),
       status (finalReply e url w)),
      w\<lparr>clock := clock w + httpTime e url w, trace := trace w @ httpEvents e url w\<rparr>)"
  by (auto simp add: httpGET_def http_GET_def finalReply_def firstReply_def isRedirect_def
      httpTime_def httpEvents_def ops Let_def)

lemma cstr_simps:
  "cstr [] = []"
  "cstr (c # cs) = (if c = CHR 0x00 then [] else c # cstr cs)"
  by (simp_all add: cstr_def)

lemma cstr_id: "CHR 0x00 \<notin> set s \<Longrightarrow> cstr s = s"
  by (induction s) (auto simp add: cstr_simps)

lemma strstr_from_found:
  "pat \<noteq> [] \<Longrightarrow> (0 \<le> strstr_from i s pat) = sublist pat (cstr s)"
proof (induction s arbitrary: i)
  case Nil
  then show ?case by (simp add: cstr_simps)
next
  case (Cons c cs)
  show ?case
  proof (cases "prefix pat (cstr (c # cs))")
    case True
    then show ?thesis by auto
  next
    case no_match: False
    show ?thesis
    proof (cases "c = CHR 0x00")
      case True
      with Cons.prems show ?thesis by (simp add: cstr_simps)
    next
      case False
      with no_match show ?thesis
        using Cons.IH [OF Cons.prems, of "Suc i"]
        by (simp add: cstr_simps sublist_Cons_right)
    qed
  qed
qed

lemma indexOf_found:
  "pat \<noteq> [] \<Longrightarrow> CHR 0x00 \<notin> set pat \<Longrightarrow> (0 \<le> indexOf s pat) = sublist pat (cstr s)"
  by (simp add: indexOf_def strstr_from_found cstr_id cstr_simps)

lemma indexOf_markers:
  "(0 \<le> indexOf s ''session_started'') = sublist ''session_started'' (cstr s)"
  "(0 \<le> indexOf s ''session_ended'') = sublist ''session_ended'' (cstr s)"
  by (simp_all add: indexOf_found)

subsection \<open>Observations and the access decision\<close>

lemma peerLines_append: "peerLines (xs @ ys) = peerLines xs @ peerLines ys"
  by (induction xs rule: peerLines.induct) simp_all

lemma feedback_append: "feedback (xs @ ys) = feedback xs @ feedback ys"
  by (simp add: feedback_def)

lemma httpCalls_append: "httpCalls (xs @ ys) = httpCalls xs @ httpCalls ys"
  by (simp add: httpCalls_def)

lemma peerLines_httpEvents: "peerLines (httpEvents e url w) = []"
  by (simp add: httpEvents_def)

lemma feedback_httpEvents: "feedback (httpEvents e url w) = []"
  by (simp add: httpEvents_def feedback_def)

lemma httpCalls_httpEvents: "httpCalls (httpEvents e url w) = httpEvents e url w"
  by (simp add: httpEvents_def httpCalls_def)

lemma peerLines_patterns: "peerLines successPattern = []" "peerLines failurePattern = []"
  by (simp_all add: successPattern_def failurePattern_def)

lemma feedback_patterns:
  "feedback successPattern = successPattern" "feedback failurePattern = failurePattern"
  by (simp_all add: successPattern_def failurePattern_def feedback_def)

lemma httpCalls_patterns: "httpCalls successPattern = []" "httpCalls failurePattern = []"
  by (simp_all add: successPattern_def failurePattern_def httpCalls_def)

lemmas observe = peerLines_append feedback_append httpCalls_append peerLines_httpEvents
  feedback_httpEvents httpCalls_httpEvents peerLines_patterns feedback_patterns httpCalls_patterns

lemma accessResult_down:
  "\<not> WiFi_connected e w \<Longrightarrow> accessResult e uid w = RequestFailed"
  by (simp add: accessResult_def httpGET_down)

lemma accessResult_up:
  "WiFi_connected e w \<Longrightarrow>
   accessResult e uid w =
     (if status (finalReply e (requestUrl uid) w) = 200
      then classify_spec (Success (cstr (body (finalReply e (requestUrl uid) w))))
      else RequestFailed)"
  by (simp add: accessResult_def httpGET_up)

lemma handleRequest_down:
  assumes "\<not> WiFi_connected e w"
  shows "handleRequest e uid w =
    w\<lparr>clock := clock w + 2100,
      trace := trace w @ [SerialPrintln (''Request failed: no_wifi (Code: '' @ String_int (- 1) @ '')''),
                          EspSerialPrintln ''Request Failed''] @ failurePattern\<rparr>"
  using assms by (simp add: Let_def handleRequest_def httpGET_down signalFailure_effect ops)

lemma handleRequest_up:
  assumes "WiFi_connected e w"
  shows "\<exists>d1 d2. handleRequest e uid w =
    w\<lparr>clock := clock w + httpTime e (requestUrl uid) w + (case accessResult e uid w of Granted \<Rightarrow> 2000 | Ended \<Rightarrow> 2000 | _ \<Rightarrow> 2100),
      trace := trace w @ httpEvents e (requestUrl uid) w @ map SerialPrintln d1 @ 
               [SerialPrintln d2, EspSerialPrintln (peerLine_spec (accessResult e uid w))]
               @ pattern_spec (accessResult e uid w)\<rparr>"
proof -
  let ?f = "finalReply e (requestUrl uid) w"
  consider (failed) "status ?f \<noteq> 200"
    | (granted) "status ?f = 200" "sublist ''session_started'' (cstr (body ?f))"
    | (ended) "status ?f = 200" "\<not> sublist ''session_started'' (cstr (body ?f))"
        "sublist ''session_ended'' (cstr (body ?f))"
    | (denied) "status ?f = 200" "\<not> sublist ''session_started'' (cstr (body ?f))"
        "\<not> sublist ''session_ended'' (cstr (body ?f))"
    by blast
  then show ?thesis
  proof cases
    case failed
    then have "handleRequest e uid w = w\<lparr>clock := clock w + httpTime e (requestUrl uid) w + 2100,
      trace := trace w @ httpEvents e (requestUrl uid) w @ map SerialPrintln [] @
        [SerialPrintln (''Request failed: '' @ (if 0 < status ?f then body ?f else []) @ '' (Code: '' @ String_int (status ?f) @ '')''),
         EspSerialPrintln ''Request Failed''] @ failurePattern\<rparr>"
      by (simp add: Let_def handleRequest_def httpGET_up [OF assms] signalFailure_effect ops)
    moreover from failed have "accessResult e uid w = RequestFailed"
      by (simp add: accessResult_up [OF assms])
    ultimately show ?thesis
      by (simp only: AccessResult.case peerLine_spec.simps pattern_spec.simps) blast
  next
    case granted
    then have "handleRequest e uid w = w\<lparr>clock := clock w + httpTime e (requestUrl uid) w + 2000,
      trace := trace w @ httpEvents e (requestUrl uid) w @ map SerialPrintln [''Server response: '' @ body ?f] @
        [SerialPrintln ''Session started successfully.'',
         EspSerialPrintln ''Access Granted!''] @ successPattern\<rparr>"
      by (simp add: Let_def handleRequest_def httpGET_up [OF assms] signalSuccess_effect ops indexOf_markers)
    moreover from granted have "accessResult e uid w = Granted"
      by (simp add: accessResult_up [OF assms])
    ultimately show ?thesis
      by (simp only: AccessResult.case peerLine_spec.simps pattern_spec.simps) blast
  next
    case ended
    then have "handleRequest e uid w = w\<lparr>clock := clock w + httpTime e (requestUrl uid) w + 2000,
      trace := trace w @ httpEvents e (requestUrl uid) w @ map SerialPrintln [''Server response: '' @ body ?f] @
        [SerialPrintln ''Session ended successfully.'',
         EspSerialPrintln ''Session Ended''] @ successPattern\<rparr>"
      by (simp add: Let_def handleRequest_def httpGET_up [OF assms] signalSuccess_effect ops indexOf_markers)
    moreover from ended have "accessResult e uid w = Ended"
      by (simp add: accessResult_up [OF assms])
    ultimately show ?thesis
      by (simp only: AccessResult.case peerLine_spec.simps pattern_spec.simps) blast
  next
    case denied
    then have "handleRequest e uid w = w\<lparr>clock := clock w + httpTime e (requestUrl uid) w + 2100,
      trace := trace w @ httpEvents e (requestUrl uid) w @ map SerialPrintln [''Server response: '' @ body ?f] @
        [SerialPrintln ''Unknown or denied response.'',
         EspSerialPrintln ''Access Denied''] @ failurePattern\<rparr>"
      by (simp add: Let_def handleRequest_def httpGET_up [OF assms] signalFailure_effect ops indexOf_markers)
    moreover from denied have "accessResult e uid w = Denied"
      by (simp add: accessResult_up [OF assms])
    ultimately show ?thesis
      by (simp only: AccessResult.case peerLine_spec.simps pattern_spec.simps) blast
  qed
qed


subsection \<open>Reading a card\<close>

lemma feedback_simps:
  "feedback [] = []"
  "feedback (ev # evs) = (if isIndicator ev then ev # feedback evs else feedback evs)"
  by (simp_all add: feedback_def)

lemma httpCalls_simps:
  "httpCalls [] = []"
  "httpCalls (ev # evs) = (if isHttp ev then ev # httpCalls evs else httpCalls evs)"
  by (simp_all add: httpCalls_def)

lemma handleRequest_summary:
  "\<exists>dt evs. handleRequest e uid w = w\<lparr>clock := clock w + dt, trace := trace w @ evs\<rparr>
     \<and> 2000 \<le> dt
     \<and> peerLines evs = [peerLine_spec (accessResult e uid w)]
     \<and> feedback evs = pattern_spec (accessResult e uid w)
     \<and> httpCalls evs = (if WiFi_connected e w then httpEvents e (requestUrl uid) w else [])"
proof (cases "WiFi_connected e w")
  case False
  show ?thesis
    apply (rule exI [of _ 2100])
    apply (rule exI [of _ "[SerialPrintln (''Request failed: no_wifi (Code: '' @ String_int (- 1) @ '')''),
                          EspSerialPrintln ''Request Failed''] @ failurePattern"])
    apply (simp add: handleRequest_down [OF False] accessResult_down [OF False] False observe
        feedback_simps httpCalls_simps)
    done
next
  case True
  from handleRequest_up [OF True, of uid] obtain d1 d2 where
    eq: "handleRequest e uid w =
      w\<lparr>clock := clock w + httpTime e (requestUrl uid) w
          + (case accessResult e uid w of Granted \<Rightarrow> 2000 | Ended \<Rightarrow> 2000 | _ \<Rightarrow> 2100),
        trace := trace w @ httpEvents e (requestUrl uid) w @ map SerialPrintln d1 @
               [SerialPrintln d2, EspSerialPrintln (peerLine_spec (accessResult e uid w))]
               @ pattern_spec (accessResult e uid w)\<rparr>"
    by blast
  have diag: "peerLines (map SerialPrintln d1) = []" "feedback (map SerialPrintln d1) = []"
    "httpCalls (map SerialPrintln d1) = []"
    by (induction d1) (simp_all add: feedback_simps httpCalls_simps)
  have pat: "peerLines (pattern_spec r) = []" "feedback (pattern_spec r) = pattern_spec r"
    "httpCalls (pattern_spec r) = []" for r
    by (cases r; simp add: observe)+
  show ?thesis
    apply (rule exI [of _ "httpTime e (requestUrl uid) w
          + (case accessResult e uid w of Granted \<Rightarrow> 2000 | Ended \<Rightarrow> 2000 | _ \<Rightarrow> 2100)"])
    apply (rule exI [of _ "httpEvents e (requestUrl uid) w @ map SerialPrintln d1 @
               [SerialPrintln d2, EspSerialPrintln (peerLine_spec (accessResult e uid w))]
               @ pattern_spec (accessResult e uid w)"])
    apply (simp add: eq True observe diag pat add.assoc feedback_simps httpCalls_simps
        split: AccessResult.split)
    done
qed

lemma readRFIDCard_cases:
  "readRFIDCard e u w =
     (if cardUID_of u = lastUID w \<and> millis w - lastCardRead w < 2000
      then w\<lparr>trace := trace w @
             [SerialPrint ''Employee UID: '', SerialPrintln (cardUID_of u),
              SerialPrintln ''Card debounced - ignoring'', PiccHaltA, PcdStopCrypto1]\<rparr>
      else (handleRequest e (cardUID_of u) (presented u w))
             \<lparr>lastUID := cardUID_of u,
              trace := trace (handleRequest e (cardUID_of u) (presented u w)) @
                [PiccHaltA, PcdStopCrypto1, SerialPrintln ''Card processing complete'']\<rparr>)"
  by (simp add: readRFIDCard_def Let_def CARD_DEBOUNCE_def millis_def ops presented_def
      signalCardRead_effect)

lemma readRFIDCard_debounced:
  assumes "cardUID_of u = lastUID w \<and> millis w - lastCardRead w < 2000"
  shows "readRFIDCard e u w =
     w\<lparr>trace := trace w @
        [SerialPrint ''Employee UID: '', SerialPrintln (cardUID_of u),
         SerialPrintln ''Card debounced - ignoring'', PiccHaltA, PcdStopCrypto1]\<rparr>"
  using assms by (simp add: readRFIDCard_cases)

lemma readRFIDCard_accepted:
  assumes "\<not> (cardUID_of u = lastUID w \<and> millis w - lastCardRead w < 2000)"
  shows "readRFIDCard e u w =
     (handleRequest e (cardUID_of u) (presented u w))
       \<lparr>lastUID := cardUID_of u,
        trace := trace (handleRequest e (cardUID_of u) (presented u w)) @
          [PiccHaltA, PcdStopCrypto1, SerialPrintln ''Card processing complete'']\<rparr>"
  by (simp only: readRFIDCard_cases assms if_False)

text \<open>An accepted card: what the outside sees, and the globals afterwards.\<close>

lemma readRFIDCard_accepted_summary:
  assumes "\<not> (cardUID_of u = lastUID w \<and> millis w - lastCardRead w < 2000)"
  shows "\<exists>dt evs. readRFIDCard e u w =
           w\<lparr>lastUID := cardUID_of u, clock := clock w + 50 + dt, trace := trace w @ evs\<rparr>
     \<and> 2000 \<le> dt
     \<and> peerLines evs = [peerLine_spec (accessResult e (cardUID_of u) (presented u w))]
     \<and> feedback evs = [DigitalWrite BUZZER_PIN True, Delay 50, DigitalWrite BUZZER_PIN False]
          @ pattern_spec (accessResult e (cardUID_of u) (presented u w))
     \<and> httpCalls evs = (if linkUp e (clock w + 50)
                         then httpEvents e (requestUrl (cardUID_of u)) (presented u w) else [])"
proof -
  from handleRequest_summary [of e "cardUID_of u" "presented u w"] obtain dt evs where
    eq: "handleRequest e (cardUID_of u) (presented u w) =
           (presented u w)\<lparr>clock := clock (presented u w) + dt,
                            trace := trace (presented u w) @ evs\<rparr>"
    and dt: "2000 \<le> dt"
    and peer: "peerLines evs = [peerLine_spec (accessResult e (cardUID_of u) (presented u w))]"
    and fb: "feedback evs = pattern_spec (accessResult e (cardUID_of u) (presented u w))"
    and http: "httpCalls evs = (if WiFi_connected e (presented u w)
                 then httpEvents e (requestUrl (cardUID_of u)) (presented u w) else [])"
    by blast
  let ?evs = "[SerialPrint ''Employee UID: '', SerialPrintln (cardUID_of u),
          DigitalWrite BUZZER_PIN True, Delay 50, DigitalWrite BUZZER_PIN False,
          SerialPrintln ''Processing employee card...''] @ evs
          @ [PiccHaltA, PcdStopCrypto1, SerialPrintln ''Card processing complete'']"
  have "readRFIDCard e u w =
           w\<lparr>lastUID := cardUID_of u, clock := clock w + 50 + dt, trace := trace w @ ?evs\<rparr>"
    by (simp only: readRFIDCard_accepted [OF assms] eq) (simp add: presented_def)
  moreover have "peerLines ?evs = [peerLine_spec (accessResult e (cardUID_of u) (presented u w))]"
    by (simp add: peerLines_append peer)
  moreover have "feedback ?evs = [DigitalWrite BUZZER_PIN True, Delay 50, DigitalWrite BUZZER_PIN False]
          @ pattern_spec (accessResult e (cardUID_of u) (presented u w))"
    by (simp add: feedback_append feedback_simps fb)
  moreover have "httpCalls ?evs = (if linkUp e (clock w + 50)
                         then httpEvents e (requestUrl (cardUID_of u)) (presented u w) else [])"
    by (simp add: httpCalls_append httpCalls_simps http WiFi_connected_def presented_def)
  ultimately show ?thesis
    using dt by blast
qed

subsection \<open>Connecting to Wi-Fi\<close>

lemma polls_observed:
  "peerLines (polls k) = []" "httpCalls (polls k) = []"
  by (induction k) (simp_all add: polls_def httpCalls_simps)

lemma polls_Suc: "polls (Suc k) = [Delay 500, SerialPrint ''.''] @ polls k"
  by (simp add: polls_def)

lemma wait_guard:
  "(millis w - cs < 20000) = (unat (millis w - cs) < 20000)"
  by (simp add: word_less_nat_alt)

lemma wait_step:
  assumes "unat (millis w - cs) < 20000"
  shows "unat (millis (w\<lparr>clock := clock w + 500, trace := t\<rparr>) - cs) = unat (millis w - cs) + 500"
proof -
  define x where "x = millis w - cs"
  define x' where "x' = millis (w\<lparr>clock := clock w + 500, trace := t\<rparr>) - cs"
  have below: "unat x < 20000"
    using assms by (simp add: x_def)
  have "x' = x + 500"
    by (simp add: x_def x'_def millis_def)
  then have "unat x' = unat x + 500"
    using below by (simp add: unat_word_ariths)
  then show ?thesis
    by (simp add: x_def x'_def)
qed

lemma wifiConnect_wait_effect:
  assumes "unat (millis w - cs) = 500 * j" and "j \<le> 40"
  shows "\<exists>k. j + k \<le> 40
    \<and> wifiConnect_wait e cs w = w\<lparr>clock := clock w + 500 * k, trace := trace w @ polls k\<rparr>
    \<and> (linkUp e (clock w + 500 * k) \<or> j + k = 40)
    \<and> (\<forall>i<k. \<not> linkUp e (clock w + 500 * i))"
  using assms
proof (induction e cs w arbitrary: j rule: wifiConnect_wait.induct)
  case (1 e cs w)
  let ?w' = "w\<lparr>clock := clock w + 500, trace := trace w @ [Delay 500, SerialPrint ''.'']\<rparr>"
  have step: "seq [delay 500, Serial_print ''.''] w = ?w'"
    by (simp add: ops)
  show ?case
  proof (cases "\<not> WiFi_connected e w \<and> millis w - cs < 20000")
    case True
    then have below: "unat (millis w - cs) < 20000"
      by (simp add: wait_guard)
    with "1.prems" have j: "j < 40" by simp
    have "unat (millis ?w' - cs) = 500 * Suc j"
      using wait_step [OF below] "1.prems" by simp
    with "1.IH" [OF True, of "Suc j"] j step obtain k where
      k: "Suc j + k \<le> 40"
      and eq: "wifiConnect_wait e cs ?w' = ?w'\<lparr>clock := clock ?w' + 500 * k, trace := trace ?w' @ polls k\<rparr>"
      and up: "linkUp e (clock ?w' + 500 * k) \<or> Suc j + k = 40"
      and down: "\<forall>i<k. \<not> linkUp e (clock ?w' + 500 * i)"
      by auto
    have unfold: "wifiConnect_wait e cs w = wifiConnect_wait e cs ?w'"
      using True step by (subst wifiConnect_wait.simps) simp
    have "wifiConnect_wait e cs w = w\<lparr>clock := clock w + 500 * Suc k, trace := trace w @ polls (Suc k)\<rparr>"
      by (simp add: unfold eq polls_Suc)
    moreover have "linkUp e (clock w + 500 * Suc k) \<or> j + Suc k = 40"
      using up by (simp add: add.assoc)
    moreover have "\<forall>i<Suc k. \<not> linkUp e (clock w + 500 * i)"
    proof (intro allI impI)
      fix i assume "i < Suc k"
      show "\<not> linkUp e (clock w + 500 * i)"
      proof (cases i)
        case 0
        with True show ?thesis by (simp add: WiFi_connected_def)
      next
        case (Suc i')
        with \<open>i < Suc k\<close> down have "\<not> linkUp e (clock ?w' + 500 * i')" by simp
        with Suc show ?thesis by (simp add: add.assoc)
      qed
    qed
    moreover have "j + Suc k \<le> 40" using k by simp
    ultimately show ?thesis by blast
  next
    case False
    then have "wifiConnect_wait e cs w = w"
      by (subst wifiConnect_wait.simps) auto
    moreover from False "1.prems" have "linkUp e (clock w) \<or> j = 40"
      by (auto simp add: wait_guard WiFi_connected_def)
    ultimately show ?thesis
      using "1.prems" by (intro exI [of _ 0]) (simp add: polls_def)
  qed
qed

lemma wifiConnect_effect:
  "\<exists>k\<le>40.
     wifiConnect e w =
       w\<lparr>clock := clock w + 500 * k,
         trace := trace w
           @ [SerialPrint ''Connecting to WiFi: '', SerialPrintln WIFI_SSID,
              WifiMode, WifiBegin WIFI_SSID WIFI_PASSWORD]
           @ polls k
           @ (if linkUp e (clock w + 500 * k)
              then [SerialPrintln (CHR 0x0A # ''Connected to WiFi!''),
                    SerialPrint ''IP address: '', SerialPrintln (localIP e)]
              else [SerialPrintln (CHR 0x0A # ''WiFi connection failed!''),
                    DigitalWrite RED_LED_PIN True])\<rparr>
     \<and> (linkUp e (clock w + 500 * k) \<or> k = 40)
     \<and> (\<forall>i<k. \<not> linkUp e (clock w + 500 * i))"
proof -
  let ?w1 = "w\<lparr>trace := trace w @ [SerialPrint ''Connecting to WiFi: '', SerialPrintln WIFI_SSID,
              WifiMode, WifiBegin WIFI_SSID WIFI_PASSWORD]\<rparr>"
  have start: "seq [Serial_print ''Connecting to WiFi: '', Serial_println WIFI_SSID,
                    WiFi_mode, WiFi_begin WIFI_SSID WIFI_PASSWORD] w = ?w1"
    by (simp add: ops)
  have "unat (millis ?w1 - millis ?w1) = 500 * 0" by simp
  from wifiConnect_wait_effect [OF this, of e] obtain k where
    k: "k \<le> 40"
    and eq: "wifiConnect_wait e (millis ?w1) ?w1 = ?w1\<lparr>clock := clock ?w1 + 500 * k, trace := trace ?w1 @ polls k\<rparr>"
    and up: "linkUp e (clock ?w1 + 500 * k) \<or> k = 40"
    and down: "\<forall>i<k. \<not> linkUp e (clock ?w1 + 500 * i)"
    by auto
  have "wifiConnect e w =
       w\<lparr>clock := clock w + 500 * k,
         trace := trace w
           @ [SerialPrint ''Connecting to WiFi: '', SerialPrintln WIFI_SSID,
              WifiMode, WifiBegin WIFI_SSID WIFI_PASSWORD]
           @ polls k
           @ (if linkUp e (clock w + 500 * k)
              then [SerialPrintln (CHR 0x0A # ''Connected to WiFi!''),
                    SerialPrint ''IP address: '', SerialPrintln (localIP e)]
              else [SerialPrintln (CHR 0x0A # ''WiFi connection failed!''),
                    DigitalWrite RED_LED_PIN True])\<rparr>"
    by (simp add: wifiConnect_def Let_def start eq WiFi_connected_def) (simp add: ops)
  with k up down show ?thesis by auto
qed

subsection \<open>The main loop\<close>

lemma loop_wifi_effect:
  "\<exists>t dt evs. loop_wifi e w = w\<lparr>lastWifiCheck := t, clock := clock w + dt, trace := trace w @ evs\<rparr>
     \<and> peerLines evs = [] \<and> httpCalls evs = []"
proof (cases "millis w - lastWifiCheck w > WIFI_CHECK_INTERVAL \<and> \<not> WiFi_connected e w")
  case True
  let ?w0 = "w\<lparr>trace := trace w @ [SerialPrintln ''WiFi disconnected, reconnecting...'']\<rparr>"
  from wifiConnect_effect [of e ?w0] obtain k where
    eq: "wifiConnect e ?w0 =
       ?w0\<lparr>clock := clock ?w0 + 500 * k,
         trace := trace ?w0
           @ [SerialPrint ''Connecting to WiFi: '', SerialPrintln WIFI_SSID,
              WifiMode, WifiBegin WIFI_SSID WIFI_PASSWORD]
           @ polls k
           @ (if linkUp e (clock ?w0 + 500 * k)
              then [SerialPrintln (CHR 0x0A # ''Connected to WiFi!''),
                    SerialPrint ''IP address: '', SerialPrintln (localIP e)]
              else [SerialPrintln (CHR 0x0A # ''WiFi connection failed!''),
                    DigitalWrite RED_LED_PIN True])\<rparr>"
    by blast
  let ?evs = "[SerialPrintln ''WiFi disconnected, reconnecting...'']
           @ [SerialPrint ''Connecting to WiFi: '', SerialPrintln WIFI_SSID,
              WifiMode, WifiBegin WIFI_SSID WIFI_PASSWORD]
           @ polls k
           @ (if linkUp e (clock w + 500 * k)
              then [SerialPrintln (CHR 0x0A # ''Connected to WiFi!''),
                    SerialPrint ''IP address: '', SerialPrintln (localIP e)]
              else [SerialPrintln (CHR 0x0A # ''WiFi connection failed!''),
                    DigitalWrite RED_LED_PIN True])"
  have "loop_wifi e w = w\<lparr>lastWifiCheck := of_nat (clock w + 500 * k), clock := clock w + 500 * k,
          trace := trace w @ ?evs\<rparr>"
    using True by (simp add: loop_wifi_def Let_def ops eq millis_def)
  moreover have "peerLines ?evs = []" "httpCalls ?evs = []"
    by (simp_all add: peerLines_append httpCalls_append polls_observed httpCalls_simps)
  ultimately show ?thesis by blast
next
  case False
  then have "loop_wifi e w = w\<lparr>lastWifiCheck := (if millis w - lastWifiCheck w > WIFI_CHECK_INTERVAL then millis w else lastWifiCheck w),
      clock := clock w + 0, trace := trace w @ []\<rparr>"
    by (auto simp add: loop_wifi_def Let_def)
  then show ?thesis
    by (metis peerLines.simps(1) httpCalls_simps(1))
qed

lemma loop_effect:
  "\<exists>t dt evs. loop e rd w =
       (loop_card e rd w)\<lparr>lastWifiCheck := t, clock := clock (loop_card e rd w) + dt,
                           trace := trace (loop_card e rd w) @ evs\<rparr>
     \<and> peerLines evs = [] \<and> httpCalls evs = []"
proof -
  from loop_wifi_effect [of e "loop_card e rd w"] obtain t dt evs where
    eq: "loop_wifi e (loop_card e rd w) =
      (loop_card e rd w)\<lparr>lastWifiCheck := t, clock := clock (loop_card e rd w) + dt,
                          trace := trace (loop_card e rd w) @ evs\<rparr>"
    and obs: "peerLines evs = []" "httpCalls evs = []"
    by blast
  have "loop e rd w = (loop_card e rd w)\<lparr>lastWifiCheck := t, clock := clock (loop_card e rd w) + (dt + 100),
                           trace := trace (loop_card e rd w) @ (evs @ [Delay 100])\<rparr>"
    by (simp add: loop_def eq ops)
  moreover have "peerLines (evs @ [Delay 100]) = []" "httpCalls (evs @ [Delay 100]) = []"
    by (simp_all add: peerLines_append httpCalls_append obs httpCalls_simps)
  ultimately show ?thesis by blast
qed

lemma loop_card_ReadFailed:
  "loop_card e ReadFailed w =
     w\<lparr>clock := clock w + 2100,
       trace := trace w @ SerialPrintln ''Failed to read card serial'' # failurePattern\<rparr>"
  by (simp add: loop_card_def signalFailure_effect ops)

lemma loop_card_debounced:
  assumes "cardUID_of u = lastUID w \<and> millis w - lastCardRead w < 2000"
  shows "loop_card e (CardSerial u) w =
     w\<lparr>lastCardRead := millis w,
       trace := trace w @
        [SerialPrint ''Employee UID: '', SerialPrintln (cardUID_of u),
         SerialPrintln ''Card debounced - ignoring'', PiccHaltA, PcdStopCrypto1]\<rparr>"
  by (simp add: loop_card_def readRFIDCard_debounced [OF assms] Let_def millis_def)

lemma loop_card_accepted:
  assumes "\<not> (cardUID_of u = lastUID w \<and> millis w - lastCardRead w < 2000)"
  shows "loop_card e (CardSerial u) w =
     (handleRequest e (cardUID_of u) (presented u w))
       \<lparr>lastUID := cardUID_of u,
        lastCardRead := millis (handleRequest e (cardUID_of u) (presented u w)),
        trace := trace (handleRequest e (cardUID_of u) (presented u w)) @
          [PiccHaltA, PcdStopCrypto1, SerialPrintln ''Card processing complete'']\<rparr>"
  by (simp add: loop_card_def readRFIDCard_accepted [OF assms] Let_def millis_def)

lemma handleRequest_frame:
  "lastUID (handleRequest e uid w) = lastUID w"
  "lastCardRead (handleRequest e uid w) = lastCardRead w"
  "lastWifiCheck (handleRequest e uid w) = lastWifiCheck w"
  "clock w + 2000 \<le> clock (handleRequest e uid w)"
  using handleRequest_summary [of e uid w] by auto

lemma run_Nil: "run e [] w = w"
  by (simp add: run_def)

lemma run_Cons: "run e (rd # rds) w = run e rds (loop e rd w)"
  by (simp add: run_def)

lemma run_append: "run e (xs @ ys) w = run e ys (run e xs w)"
  by (simp add: run_def)

lemma loop_idle:
  assumes "lastWifiCheck w = 0" and "clock w \<le> 30000"
  shows "loop e NoCard w = w\<lparr>clock := clock w + 100, trace := trace w @ [Delay 100]\<rparr>"
proof -
  have "unat (of_nat (clock w) :: 32 word) = clock w"
    using assms(2) by (simp add: unat_of_nat)
  then have "\<not> millis w - lastWifiCheck w > WIFI_CHECK_INTERVAL"
    using assms by (simp add: millis_def WIFI_CHECK_INTERVAL_def word_less_nat_alt)
  then show ?thesis
    by (simp add: loop_def loop_card_def loop_wifi_def ops)
qed

lemma run_idle:
  assumes "lastWifiCheck w = 0" and "clock w + 100 * n \<le> 30100"
  shows "run e (replicate n NoCard) w =
           w\<lparr>clock := clock w + 100 * n, trace := trace w @ replicate n (Delay 100)\<rparr>"
  using assms
proof (induction n arbitrary: w)
  case 0
  then show ?case by (simp add: run_Nil)
next
  case (Suc n)
  let ?w' = "w\<lparr>clock := clock w + 100, trace := trace w @ [Delay 100]\<rparr>"
  from Suc.prems have "loop e NoCard w = ?w'"
    by (intro loop_idle) simp_all
  moreover from Suc.prems have "run e (replicate n NoCard) ?w' =
      ?w'\<lparr>clock := clock ?w' + 100 * n, trace := trace ?w' @ replicate n (Delay 100)\<rparr>"
    by (intro Suc.IH) simp_all
  ultimately show ?case
    by (simp add: run_Cons replicate_app_Cons_same)
qed

subsection \<open>The access decision and the HTTP helper\<close>

lemma outcome_of_httpGET:
  "outcome_of (fst (httpGET e url [] w)) =
     (if \<not> WiFi_connected e w then TransportFailure
      else if status (finalReply e url w) = 200 then Success (body (finalReply e url w))
      else HttpFailure (status (finalReply e url w)))"
  by (cases "WiFi_connected e w") (simp_all add: httpGET_up httpGET_down)

lemma nulBody_reply:
  "WiFi_connected nulBody w"
  "finalReply nulBody url w =
     \<lparr>status = 200, location = [], body = CHR ''x'' # CHR 0x00 # ''session_started'',
      took = 300\<rparr>"
  by (simp_all add: WiFi_connected_def finalReply_def firstReply_def isRedirect_def nulBody_def)

text \<open>
  \<^bold>\<open>C1\<close>, as the specification words it, fails on a 200 answer whose body holds a NUL
  byte in front of the marker: the body contains \<^verbatim>\<open>session_started\<close>, so the
  specification's classification is Granted, but \<^verbatim>\<open>indexOf\<close> searches as \<^verbatim>\<open>strstr\<close> does
  and stops at the NUL byte, and the peer gets \<^verbatim>\<open>Access Denied\<close>.
\<close>

theorem marker_behind_nul_counterexample:
  "status (finalReply nulBody (requestUrl ''DEADBEEF'') (initial 0)) = 200
   \<and> sublist ''session_started''
        (body (finalReply nulBody (requestUrl ''DEADBEEF'') (initial 0)))
   \<and> classify_spec (outcome_of (fst (httpGET nulBody (requestUrl ''DEADBEEF'') [] (initial 0))))
       = Granted
   \<and> peerLines (trace (handleRequest nulBody ''DEADBEEF'' (initial 0))) = [''Access Denied'']"
proof -
  have inside: "sublist ''session_started'' (CHR ''x'' # CHR 0x00 # ''session_started'')"
    by (simp add: sublist_Cons_right)
  have "accessResult nulBody ''DEADBEEF'' (initial 0) = Denied"
    by (simp add: accessResult_up nulBody_reply cstr_simps sublist_Cons_right)
  moreover from handleRequest_summary [of nulBody "''DEADBEEF''" "initial 0"] obtain dt evs where
    "handleRequest nulBody ''DEADBEEF'' (initial 0) =
       (initial 0)\<lparr>clock := clock (initial 0) + dt, trace := trace (initial 0) @ evs\<rparr>"
    and "peerLines evs = [peerLine_spec (accessResult nulBody ''DEADBEEF'' (initial 0))]"
    by blast
  ultimately have "peerLines (trace (handleRequest nulBody ''DEADBEEF'' (initial 0)))
      = [''Access Denied'']"
    by (simp add: peerLines_append initial_def)
  then show ?thesis
    using inside by (simp add: outcome_of_httpGET nulBody_reply)
qed

text \<open>
  \<^bold>\<open>C1\<close>, amended. The line \<^verbatim>\<open>handleRequest\<close> sends to the peer is the line of the
  specification's classification of the request's outcome, the body of a 200 answer
  being read up to its first NUL byte: when that part contains \<^verbatim>\<open>session_started\<close> the
  result is Granted; otherwise, when it contains \<^verbatim>\<open>session_ended\<close>, Ended; otherwise
  Denied; and every failure, of the transport or of the HTTP status, is RequestFailed.
  The test for \<^verbatim>\<open>session_started\<close> comes first, so it wins when both markers are present
  (\<open>classify_spec\<close>). For a body that holds no NUL byte this is the classification of the
  whole body. The outcome itself is a transport failure when the link is down, a success
  with the final body when the final status is 200, and an HTTP failure with the final
  status otherwise.
\<close>

theorem handleRequest_classification:
  "peerLines (trace (handleRequest e uid w)) =
     peerLines (trace w)
       @ [peerLine_spec
            (classify_spec (seen (outcome_of (fst (httpGET e (requestUrl uid) [] w)))))]
   \<and> (CHR 0x00 \<notin> set (body (finalReply e (requestUrl uid) w)) \<longrightarrow>
        peerLines (trace (handleRequest e uid w)) =
          peerLines (trace w)
            @ [peerLine_spec
                 (classify_spec (outcome_of (fst (httpGET e (requestUrl uid) [] w))))])
   \<and> outcome_of (fst (httpGET e (requestUrl uid) [] w)) =
       (if \<not> WiFi_connected e w then TransportFailure
        else if status (finalReply e (requestUrl uid) w) = 200
             then Success (body (finalReply e (requestUrl uid) w))
             else HttpFailure (status (finalReply e (requestUrl uid) w)))"
proof (intro conjI impI)
  from handleRequest_summary [of e uid w] obtain dt evs where
    "handleRequest e uid w = w\<lparr>clock := clock w + dt, trace := trace w @ evs\<rparr>"
    and "peerLines evs = [peerLine_spec (accessResult e uid w)]"
    by blast
  then show line: "peerLines (trace (handleRequest e uid w)) =
     peerLines (trace w)
       @ [peerLine_spec
            (classify_spec (seen (outcome_of (fst (httpGET e (requestUrl uid) [] w)))))]"
    by (simp add: peerLines_append accessResult_def)
  {
    assume "CHR 0x00 \<notin> set (body (finalReply e (requestUrl uid) w))"
    then have "seen (outcome_of (fst (httpGET e (requestUrl uid) [] w)))
        = outcome_of (fst (httpGET e (requestUrl uid) [] w))"
      by (simp add: outcome_of_httpGET cstr_id)
    with line show "peerLines (trace (handleRequest e uid w)) =
          peerLines (trace w)
            @ [peerLine_spec
                 (classify_spec (outcome_of (fst (httpGET e (requestUrl uid) [] w))))]"
      by simp
  }
  show "outcome_of (fst (httpGET e (requestUrl uid) [] w)) =
       (if \<not> WiFi_connected e w then TransportFailure
        else if status (finalReply e (requestUrl uid) w) = 200
             then Success (body (finalReply e (requestUrl uid) w))
             else HttpFailure (status (finalReply e (requestUrl uid) w)))"
    by (rule outcome_of_httpGET)
qed

text \<open>A 200 answer with the body \<^verbatim>\<open>session_started\<close>, which holds no NUL byte: Granted.\<close>

theorem handleRequest_classification_witness:
  "CHR 0x00 \<notin> set (body (finalReply granting (requestUrl ''DEADBEEF'') (initial 0)))
   \<and> outcome_of (fst (httpGET granting (requestUrl ''DEADBEEF'') [] (initial 0)))
       = Success ''session_started''
   \<and> peerLines (trace (handleRequest granting ''DEADBEEF'' (initial 0))) = [''Access Granted!'']"
proof -
  have up: "WiFi_connected granting (initial 0)"
    by (simp add: WiFi_connected_def granting_def)
  have final: "finalReply granting (requestUrl ''DEADBEEF'') (initial 0)
      = \<lparr>status = 200, location = [], body = ''session_started'', took = 300\<rparr>"
    by (simp add: finalReply_def firstReply_def isRedirect_def granting_def)
  have clean: "CHR 0x00 \<notin> set (body (finalReply granting (requestUrl ''DEADBEEF'') (initial 0)))"
    by (simp add: final)
  have start: "trace (initial 0) = []"
    by (simp add: initial_def)
  from handleRequest_classification [of granting "''DEADBEEF''" "initial 0"] clean up
  show ?thesis
    by (simp add: final start cstr_simps)
qed

text \<open>
  \<^bold>\<open>C7.\<close> One card event sends exactly one line to the peer and plays exactly one feedback
  pattern, and the two belong to the same result: Granted gives \<^verbatim>\<open>Access Granted!\<close> with
  the success pattern, Ended gives \<^verbatim>\<open>Session Ended\<close> with the success pattern, Denied
  gives \<^verbatim>\<open>Access Denied\<close> with the failure pattern, and RequestFailed gives
  \<^verbatim>\<open>Request Failed\<close> with the failure pattern (\<open>peerLine_spec\<close>, \<open>pattern_spec\<close>).
  The result is the one \<^verbatim>\<open>handleRequest\<close> reaches: the classification of the outcome as
  \<^verbatim>\<open>indexOf\<close> reads it (\<open>accessResult\<close>).
\<close>

theorem handleRequest_feedback_table:
  "peerLines (trace (handleRequest e uid w)) =
     peerLines (trace w) @ [peerLine_spec (accessResult e uid w)]
   \<and> feedback (trace (handleRequest e uid w)) =
     feedback (trace w) @ pattern_spec (accessResult e uid w)"
proof -
  from handleRequest_summary [of e uid w] obtain dt evs where
    "handleRequest e uid w = w\<lparr>clock := clock w + dt, trace := trace w @ evs\<rparr>"
    and "peerLines evs = [peerLine_spec (accessResult e uid w)]"
    and "feedback evs = pattern_spec (accessResult e uid w)"
    by blast
  then show ?thesis
    by (simp add: peerLines_append feedback_append)
qed

text \<open>
  \<^bold>\<open>C4.\<close> With the link up, \<^verbatim>\<open>httpGET\<close> follows at most one redirect. It begins the
  client on the URL with a timeout of 10000 and issues one GET. When that GET returns 301
  or 302 it reads the Location, ends the client, begins it again on the Location with the
  same timeout and issues exactly one more GET, whose reply is the final one. Whatever
  the second reply is, also a redirect, no further GET follows: the code handed back is
  the second reply's status, and the flag says whether it is 200.
\<close>

theorem httpGET_single_redirect:
  assumes "WiFi_connected e w"
  shows "trace (snd (httpGET e url resp w)) =
           trace w
           @ [HttpBegin url, HttpSetTimeout 10000, HttpGET]
           @ (if status (firstReply e url w) = 301 \<or> status (firstReply e url w) = 302
              then [HttpGetLocation, HttpEnd,
                    HttpBegin (location (firstReply e url w)), HttpSetTimeout 10000, HttpGET]
              else [])
           @ (if 0 < status (finalReply e url w) then [HttpGetString] else [])
           @ [HttpEnd]
       \<and> finalReply e url w =
           (if status (firstReply e url w) = 301 \<or> status (firstReply e url w) = 302
            then server e (clock w + took (firstReply e url w)) (location (firstReply e url w))
            else firstReply e url w)
       \<and> fst (httpGET e url resp w) =
           (status (finalReply e url w) = 200,
            if 0 < status (finalReply e url w) then body (finalReply e url w) else resp,
            status (finalReply e url w))"
  by (simp add: httpGET_up [OF assms] httpEvents_def finalReply_def isRedirect_def Let_def)

text \<open>
  A chain \<open>A\<close> to \<open>B\<close> to \<open>C\<close>: the helper fetches \<open>A\<close> and \<open>B\<close>, never \<open>C\<close>, and
  reports the status 302 of \<open>B\<close>.
\<close>

theorem httpGET_single_redirect_witness:
  "WiFi_connected chain (initial 0)
   \<and> trace (snd (httpGET chain ''A'' [] (initial 0))) =
       [HttpBegin ''A'', HttpSetTimeout 10000, HttpGET, HttpGetLocation, HttpEnd,
        HttpBegin ''B'', HttpSetTimeout 10000, HttpGET, HttpGetString, HttpEnd]
   \<and> fst (httpGET chain ''A'' [] (initial 0)) = (False, ''to C'', 302)"
proof -
  have up: "WiFi_connected chain (initial 0)"
    by (simp add: WiFi_connected_def chain_def)
  have first: "firstReply chain ''A'' (initial 0)
      = \<lparr>status = 302, location = ''B'', body = ''to B'', took = 40\<rparr>"
    by (simp add: firstReply_def chain_def)
  have final: "finalReply chain ''A'' (initial 0)
      = \<lparr>status = 302, location = ''C'', body = ''to C'', took = 40\<rparr>"
    by (simp add: finalReply_def first isRedirect_def) (simp add: chain_def)
  show ?thesis
    using httpGET_single_redirect [OF up, of "''A''" "[]"] up
    by (simp add: first final) (simp add: initial_def)
qed

text \<open>
  \<^bold>\<open>C5.\<close> With the link down \<^verbatim>\<open>httpGET\<close> hands back the failure \<^verbatim>\<open>(false, "no_wifi", -1)\<close>
  and leaves the world as it was: no call on the client, no time spent. With the link up
  the flag is true exactly when the status after at most one redirect is 200, \<open>resp\<close> is
  then the final body, and \<open>code\<close> is the final status in every case. As the caller sees
  it: a transport failure, a success with the body, or an HTTP failure with the code.
\<close>

theorem httpGET_outcome:
  "(\<not> WiFi_connected e w \<longrightarrow> httpGET e url resp w = ((False, ''no_wifi'', - 1), w))
   \<and> (WiFi_connected e w \<longrightarrow>
        fst (httpGET e url resp w) =
          (status (finalReply e url w) = 200,
           if 0 < status (finalReply e url w) then body (finalReply e url w) else resp,
           status (finalReply e url w)))
   \<and> outcome_of (fst (httpGET e url [] w)) =
       (if \<not> WiFi_connected e w then TransportFailure
        else if status (finalReply e url w) = 200 then Success (body (finalReply e url w))
        else HttpFailure (status (finalReply e url w)))"
  by (cases "WiFi_connected e w") (simp_all add: httpGET_up httpGET_down)

text \<open>
  The link down; a plain 200 answer; and a redirect whose target redirects again.
\<close>

theorem httpGET_outcome_witness:
  "\<not> WiFi_connected offline (initial 0)
   \<and> httpGET offline ''A'' [] (initial 0) = ((False, ''no_wifi'', - 1), initial 0)
   \<and> outcome_of (fst (httpGET offline ''A'' [] (initial 0))) = TransportFailure
   \<and> WiFi_connected chain (initial 0)
   \<and> fst (httpGET chain ''C'' [] (initial 0)) = (True, ''session_started'', 200)
   \<and> outcome_of (fst (httpGET chain ''C'' [] (initial 0))) = Success ''session_started''
   \<and> fst (httpGET chain ''A'' [] (initial 0)) = (False, ''to C'', 302)
   \<and> outcome_of (fst (httpGET chain ''A'' [] (initial 0))) = HttpFailure 302"
proof -
  have down: "\<not> WiFi_connected offline (initial 0)"
    by (simp add: WiFi_connected_def offline_def)
  have up: "WiFi_connected chain (initial 0)"
    by (simp add: WiFi_connected_def chain_def)
  have finalC: "finalReply chain ''C'' (initial 0)
      = \<lparr>status = 200, location = [], body = ''session_started'', took = 40\<rparr>"
    by (simp add: finalReply_def firstReply_def isRedirect_def chain_def)
  have finalA: "finalReply chain ''A'' (initial 0)
      = \<lparr>status = 302, location = ''C'', body = ''to C'', took = 40\<rparr>"
    by (simp add: finalReply_def firstReply_def isRedirect_def chain_def)
  show ?thesis
    using httpGET_outcome [of offline "initial 0" "''A''" "[]"]
      httpGET_outcome [of chain "initial 0" "''C''" "[]"]
      httpGET_outcome [of chain "initial 0" "''A''" "[]"] down up
    by (simp add: finalC finalA)
qed

subsection \<open>A concrete run\<close>

lemma cardUID_of_card: "cardUID_of badge = ''DEADBEEF''"
  by (simp add: cardUID_of_def badge_def String_HEX_def toBase16_byte lowerDigits_def
      toUpperCase_def toupper_def islower_def char_of_eq_iff)

lemma granting_result:
  "accessResult granting uid w = Granted"
  by (simp add: accessResult_def httpGET_up WiFi_connected_def finalReply_def firstReply_def
      isRedirect_def granting_def cstr_simps)

lemma handleRequest_granting:
  "handleRequest granting uid w =
     w\<lparr>clock := clock w + 2300,
       trace := trace w @
         [HttpBegin (requestUrl uid), HttpSetTimeout 10000, HttpGET, HttpGetString, HttpEnd,
          SerialPrintln ''Server response: session_started'',
          SerialPrintln ''Session started successfully.'',
          EspSerialPrintln ''Access Granted!''] @ successPattern\<rparr>"
proof -
  have up: "WiFi_connected granting w"
    by (simp add: WiFi_connected_def granting_def)
  have final: "finalReply granting (requestUrl uid) w
      = \<lparr>status = 200, location = [], body = ''session_started'', took = 300\<rparr>"
    by (simp add: finalReply_def firstReply_def isRedirect_def granting_def)
  have first: "firstReply granting (requestUrl uid) w
      = \<lparr>status = 200, location = [], body = ''session_started'', took = 300\<rparr>"
    by (simp add: firstReply_def granting_def)
  show ?thesis
    by (simp add: handleRequest_def Let_def httpGET_up [OF up] final first httpTime_def
        httpEvents_def isRedirect_def signalSuccess_effect ops indexOf_markers cstr_simps)
qed

text \<open>The first presentation, from boot: accepted and granted.\<close>

lemma first_turn:
  "loop granting (CardSerial badge) (initial 0) =
     \<lparr>lastUID = ''DEADBEEF'', lastCardRead = 2350, lastWifiCheck = 0, clock = 2450,
      trace =
        [SerialPrint ''Employee UID: '', SerialPrintln ''DEADBEEF'',
         DigitalWrite BUZZER_PIN True, Delay 50, DigitalWrite BUZZER_PIN False,
         SerialPrintln ''Processing employee card...'',
         HttpBegin (requestUrl ''DEADBEEF''), HttpSetTimeout 10000, HttpGET,
         HttpGetString, HttpEnd,
         SerialPrintln ''Server response: session_started'',
         SerialPrintln ''Session started successfully.'',
         EspSerialPrintln ''Access Granted!'']
        @ successPattern
        @ [PiccHaltA, PcdStopCrypto1, SerialPrintln ''Card processing complete'', Delay 100]\<rparr>"
proof -
  have fresh: "\<not> (cardUID_of badge = lastUID (initial 0)
      \<and> millis (initial 0) - lastCardRead (initial 0) < 2000)"
    by (simp add: cardUID_of_card initial_def)
  have badge: "loop_card granting (CardSerial badge) (initial 0) =
     \<lparr>lastUID = ''DEADBEEF'', lastCardRead = 2350, lastWifiCheck = 0, clock = 2350,
      trace =
        [SerialPrint ''Employee UID: '', SerialPrintln ''DEADBEEF'',
         DigitalWrite BUZZER_PIN True, Delay 50, DigitalWrite BUZZER_PIN False,
         SerialPrintln ''Processing employee card...'',
         HttpBegin (requestUrl ''DEADBEEF''), HttpSetTimeout 10000, HttpGET,
         HttpGetString, HttpEnd,
         SerialPrintln ''Server response: session_started'',
         SerialPrintln ''Session started successfully.'',
         EspSerialPrintln ''Access Granted!'']
        @ successPattern
        @ [PiccHaltA, PcdStopCrypto1, SerialPrintln ''Card processing complete'']\<rparr>"
    by (simp only: loop_card_accepted [OF fresh] handleRequest_granting cardUID_of_card)
       (simp add: presented_def initial_def millis_def cardUID_of_card)
  show ?thesis
    by (simp add: loop_def badge loop_wifi_def millis_def WIFI_CHECK_INTERVAL_def ops)
qed

text \<open>The same card again, 1800 ms of idle turns later: suppressed, and the timestamp
  moves to the time of this read.\<close>

lemma second_turn:
  "run granting (CardSerial badge # replicate 18 NoCard @ [CardSerial badge]) (initial 0) =
     (loop granting (CardSerial badge) (initial 0))
       \<lparr>lastCardRead := 4250, clock := 4350,
        trace := trace (loop granting (CardSerial badge) (initial 0))
          @ replicate 18 (Delay 100)
          @ [SerialPrint ''Employee UID: '', SerialPrintln ''DEADBEEF'',
             SerialPrintln ''Card debounced - ignoring'', PiccHaltA, PcdStopCrypto1,
             Delay 100]\<rparr>"
proof -
  define w1 where "w1 = loop granting (CardSerial badge) (initial 0)"
  have w1: "lastUID w1 = ''DEADBEEF''" "lastCardRead w1 = 2350" "lastWifiCheck w1 = 0"
    "clock w1 = 2450"
    by (simp_all add: w1_def first_turn)
  define w2 where "w2 = w1\<lparr>clock := clock w1 + 100 * 18, trace := trace w1 @ replicate 18 (Delay 100)\<rparr>"
  have idle: "run granting (replicate 18 NoCard) w1 = w2"
    unfolding w2_def by (rule run_idle) (simp_all add: w1)
  have w2: "lastUID w2 = ''DEADBEEF''" "lastCardRead w2 = 2350" "lastWifiCheck w2 = 0"
    "clock w2 = 4250"
    by (simp_all add: w2_def w1)
  have again: "cardUID_of badge = lastUID w2 \<and> millis w2 - lastCardRead w2 < 2000"
    by (simp add: w2 cardUID_of_card millis_def)
  have "loop granting (CardSerial badge) w2 =
      w2\<lparr>lastCardRead := 4250, clock := 4350,
        trace := trace w2
          @ [SerialPrint ''Employee UID: '', SerialPrintln ''DEADBEEF'',
             SerialPrintln ''Card debounced - ignoring'', PiccHaltA, PcdStopCrypto1,
             Delay 100]\<rparr>"
    by (simp add: loop_def loop_card_debounced [OF again] cardUID_of_card loop_wifi_def
        millis_def WIFI_CHECK_INTERVAL_def ops w2)
  also have "\<dots> = w1\<lparr>lastCardRead := 4250, clock := 4350,
        trace := trace w1 @ replicate 18 (Delay 100)
          @ [SerialPrint ''Employee UID: '', SerialPrintln ''DEADBEEF'',
             SerialPrintln ''Card debounced - ignoring'', PiccHaltA, PcdStopCrypto1,
             Delay 100]\<rparr>"
    by (simp add: w2_def)
  finally have "run granting (replicate 18 NoCard @ [CardSerial badge]) w1 =
      w1\<lparr>lastCardRead := 4250, clock := 4350,
        trace := trace w1 @ replicate 18 (Delay 100)
          @ [SerialPrint ''Employee UID: '', SerialPrintln ''DEADBEEF'',
             SerialPrintln ''Card debounced - ignoring'', PiccHaltA, PcdStopCrypto1,
             Delay 100]\<rparr>"
    by (simp only: run_Cons run_append run_Nil idle)
  then show ?thesis
    by (simp only: run_Cons w1_def)
qed

subsection \<open>The debounce filter and its state\<close>

lemma heldCard_run:
  "run granting heldCard (initial 0) =
     (loop granting (CardSerial badge) (initial 0))
       \<lparr>lastCardRead := 4250, clock := 4850,
        trace := trace (loop granting (CardSerial badge) (initial 0))
          @ replicate 18 (Delay 100)
          @ [SerialPrint ''Employee UID: '', SerialPrintln ''DEADBEEF'',
             SerialPrintln ''Card debounced - ignoring'', PiccHaltA, PcdStopCrypto1,
             Delay 100]
          @ replicate 5 (Delay 100)\<rparr>"
proof -
  define w3 where "w3 = run granting (CardSerial badge # replicate 18 NoCard @ [CardSerial badge]) (initial 0)"
  have w3: "lastWifiCheck w3 = 0" "clock w3 = 4350"
    by (simp_all add: w3_def second_turn first_turn)
  have "run granting (replicate 5 NoCard) w3 =
      w3\<lparr>clock := clock w3 + 100 * 5, trace := trace w3 @ replicate 5 (Delay 100)\<rparr>"
    by (rule run_idle) (simp_all add: w3)
  moreover have "run granting heldCard (initial 0) = run granting (replicate 5 NoCard) w3"
    by (simp add: heldCard_def w3_def run_Cons run_append run_Nil)
  ultimately show ?thesis
    by (simp add: w3 w3_def second_turn)
qed

lemma heldCard_state:
  "lastUID (run granting heldCard (initial 0)) = ''DEADBEEF''"
  "lastCardRead (run granting heldCard (initial 0)) = 4250"
  "clock (run granting heldCard (initial 0)) = 4850"
  "peerLines (trace (run granting heldCard (initial 0))) = [''Access Granted!'']"
proof -
  have quiet: "peerLines (replicate n (Delay 100)) = []" for n
    by (induction n) simp_all
  show "lastUID (run granting heldCard (initial 0)) = ''DEADBEEF''"
    "lastCardRead (run granting heldCard (initial 0)) = 4250"
    "clock (run granting heldCard (initial 0)) = 4850"
    by (simp_all add: heldCard_run first_turn)
  show "peerLines (trace (run granting heldCard (initial 0))) = [''Access Granted!'']"
    by (simp add: heldCard_run first_turn peerLines_append quiet peerLines_patterns)
qed

lemma suppressed_silent:
  assumes "cardUID_of u = lastUID w \<and> millis w - lastCardRead w < 2000"
  shows "peerLines (trace (readRFIDCard e u w)) = peerLines (trace w)"
    and "feedback (trace (readRFIDCard e u w)) = feedback (trace w)"
    and "httpCalls (trace (readRFIDCard e u w)) = httpCalls (trace w)"
  by (simp_all add: readRFIDCard_debounced [OF assms] peerLines_append feedback_append
      httpCalls_append feedback_simps httpCalls_simps)

lemma accepted_audible:
  assumes "\<not> (cardUID_of u = lastUID w \<and> millis w - lastCardRead w < 2000)"
  shows "feedback (trace (readRFIDCard e u w)) \<noteq> feedback (trace w)"
proof -
  from readRFIDCard_accepted_summary [OF assms, of e] obtain dt evs where
    "readRFIDCard e u w =
       w\<lparr>lastUID := cardUID_of u, clock := clock w + 50 + dt, trace := trace w @ evs\<rparr>"
    and "feedback evs = [DigitalWrite BUZZER_PIN True, Delay 50, DigitalWrite BUZZER_PIN False]
          @ pattern_spec (accessResult e (cardUID_of u) (presented u w))"
    by blast
  then show ?thesis
    by (simp add: feedback_append)
qed

text \<open>
  \<^bold>\<open>C2\<close>, as the specification words it, fails on the run \<open>heldCard\<close>. The card is
  accepted in the first turn (the only line sent to the peer), and that read is committed
  at time 2350. It is read again at 4250 and suppressed. At 4850 it is the identifier
  accepted last, and 2500 ms have passed since that accepted read, so the specification's
  filter lets it through; the code suppresses it, because the suppressed read at 4250
  moved the stored timestamp.
\<close>

theorem debounce_since_accepted_counterexample:
  "peerLines (trace (loop granting (CardSerial badge) (initial 0))) = [''Access Granted!'']
   \<and> lastUID (loop granting (CardSerial badge) (initial 0)) = cardUID_of badge
   \<and> lastCardRead (loop granting (CardSerial badge) (initial 0)) = 2350
   \<and> peerLines (trace (run granting heldCard (initial 0))) = [''Access Granted!'']
   \<and> clock (run granting heldCard (initial 0)) = 4850
   \<and> \<not> suppress_spec (cardUID_of badge) 2350 (cardUID_of badge) 4850
   \<and> peerLines (trace (readRFIDCard granting badge (run granting heldCard (initial 0))))
       = peerLines (trace (run granting heldCard (initial 0)))
   \<and> feedback (trace (readRFIDCard granting badge (run granting heldCard (initial 0))))
       = feedback (trace (run granting heldCard (initial 0)))
   \<and> httpCalls (trace (readRFIDCard granting badge (run granting heldCard (initial 0))))
       = httpCalls (trace (run granting heldCard (initial 0)))"
proof -
  have still: "cardUID_of badge = lastUID (run granting heldCard (initial 0))
      \<and> millis (run granting heldCard (initial 0))
          - lastCardRead (run granting heldCard (initial 0)) < 2000"
    by (simp add: heldCard_state cardUID_of_card millis_def)
  have "peerLines (trace (loop granting (CardSerial badge) (initial 0))) = [''Access Granted!'']"
    by (simp add: first_turn peerLines_append peerLines_patterns)
  moreover have "lastUID (loop granting (CardSerial badge) (initial 0)) = cardUID_of badge"
    "lastCardRead (loop granting (CardSerial badge) (initial 0)) = 2350"
    by (simp_all add: first_turn cardUID_of_card)
  moreover have "\<not> suppress_spec (cardUID_of badge) 2350 (cardUID_of badge) 4850"
    by (simp add: suppress_spec_def)
  ultimately show ?thesis
    using suppressed_silent [OF still, of granting] heldCard_state by simp
qed

text \<open>
  \<^bold>\<open>C2\<close>, amended. \<^verbatim>\<open>readRFIDCard\<close> suppresses a reading, that is sends no line to the
  peer, plays no feedback and makes no call on the HTTP client, if and only if the
  identifier equals the stored \<^verbatim>\<open>lastUID\<close> and \<^verbatim>\<open>millis() - lastCardRead\<close>, in 32-bit
  unsigned arithmetic, is below 2000; and \<^verbatim>\<open>lastCardRead\<close> is the time at which the loop
  last finished reading a card, whether that read was accepted or suppressed.
\<close>

theorem readRFIDCard_suppression:
  "((peerLines (trace (readRFIDCard e u w)) = peerLines (trace w)
      \<and> feedback (trace (readRFIDCard e u w)) = feedback (trace w)
      \<and> httpCalls (trace (readRFIDCard e u w)) = httpCalls (trace w))
     = (cardUID_of u = lastUID w \<and> millis w - lastCardRead w < 2000))
   \<and> lastCardRead (loop_card e (CardSerial u) w) = millis (loop_card e (CardSerial u) w)"
proof
  show "(peerLines (trace (readRFIDCard e u w)) = peerLines (trace w)
      \<and> feedback (trace (readRFIDCard e u w)) = feedback (trace w)
      \<and> httpCalls (trace (readRFIDCard e u w)) = httpCalls (trace w))
     = (cardUID_of u = lastUID w \<and> millis w - lastCardRead w < 2000)"
  proof (cases "cardUID_of u = lastUID w \<and> millis w - lastCardRead w < 2000")
    case True
    with suppressed_silent [OF True, of e] show ?thesis by simp
  next
    case False
    with accepted_audible [OF False, of e] show ?thesis by simp
  qed
next
  show "lastCardRead (loop_card e (CardSerial u) w) = millis (loop_card e (CardSerial u) w)"
    by (simp add: loop_card_def Let_def millis_def)
qed

text \<open>
  \<^bold>\<open>C3\<close>, as the specification words it, fails right after the first turn: the card is
  read again at 2450, with the stored identifier and 100 ms after the stored time 2350,
  so it is suppressed, nothing is sent to the peer, and yet the stored timestamp
  becomes 2450.
\<close>

theorem suppressed_read_timestamp_counterexample:
  "cardUID_of badge = lastUID (loop granting (CardSerial badge) (initial 0))
   \<and> millis (loop granting (CardSerial badge) (initial 0))
        - lastCardRead (loop granting (CardSerial badge) (initial 0)) < 2000
   \<and> peerLines (trace (loop_card granting (CardSerial badge)
         (loop granting (CardSerial badge) (initial 0))))
       = peerLines (trace (loop granting (CardSerial badge) (initial 0)))
   \<and> lastCardRead (loop granting (CardSerial badge) (initial 0)) = 2350
   \<and> lastCardRead (loop_card granting (CardSerial badge)
         (loop granting (CardSerial badge) (initial 0))) = 2450"
proof -
  define w1 where "w1 = loop granting (CardSerial badge) (initial 0)"
  have w1: "lastUID w1 = ''DEADBEEF''" "lastCardRead w1 = 2350" "clock w1 = 2450"
    by (simp_all add: w1_def first_turn)
  have again: "cardUID_of badge = lastUID w1 \<and> millis w1 - lastCardRead w1 < 2000"
    by (simp add: w1 cardUID_of_card millis_def)
  have "peerLines (trace (loop_card granting (CardSerial badge) w1)) = peerLines (trace w1)"
    by (simp add: loop_card_debounced [OF again] peerLines_append)
  moreover have "lastCardRead (loop_card granting (CardSerial badge) w1) = 2450"
    by (simp add: loop_card_debounced [OF again] millis_def w1)
  ultimately show ?thesis
    using again w1 unfolding w1_def by simp
qed

text \<open>
  \<^bold>\<open>C3\<close>, amended. The stored identifier changes only after the request, its answer and
  the feedback are complete: when a card is accepted, \<^verbatim>\<open>handleRequest\<close> returns with both
  globals as they were, at least 2050 ms after the presentation, and only then the
  identifier is stored, with the time of that moment. A suppressed presentation leaves
  the stored identifier unchanged and sets the stored timestamp to the current time.
\<close>

theorem debounce_state_commit:
  "(cardUID_of u = lastUID w \<and> millis w - lastCardRead w < 2000 \<longrightarrow>
      lastUID (loop_card e (CardSerial u) w) = lastUID w
      \<and> lastCardRead (loop_card e (CardSerial u) w) = millis w)
   \<and> (\<not> (cardUID_of u = lastUID w \<and> millis w - lastCardRead w < 2000) \<longrightarrow>
      lastUID (handleRequest e (cardUID_of u) (presented u w)) = lastUID w
      \<and> lastCardRead (handleRequest e (cardUID_of u) (presented u w)) = lastCardRead w
      \<and> clock w + 2050 \<le> clock (handleRequest e (cardUID_of u) (presented u w))
      \<and> lastUID (loop_card e (CardSerial u) w) = cardUID_of u
      \<and> lastCardRead (loop_card e (CardSerial u) w)
          = millis (handleRequest e (cardUID_of u) (presented u w)))"
proof (intro conjI impI)
  assume held: "cardUID_of u = lastUID w \<and> millis w - lastCardRead w < 2000"
  show "lastUID (loop_card e (CardSerial u) w) = lastUID w"
    by (simp add: loop_card_debounced [OF held])
  show "lastCardRead (loop_card e (CardSerial u) w) = millis w"
    by (simp add: loop_card_debounced [OF held])
next
  assume fresh: "\<not> (cardUID_of u = lastUID w \<and> millis w - lastCardRead w < 2000)"
  show "lastUID (handleRequest e (cardUID_of u) (presented u w)) = lastUID w"
    by (simp add: handleRequest_frame presented_def)
  show "lastCardRead (handleRequest e (cardUID_of u) (presented u w)) = lastCardRead w"
    by (simp add: handleRequest_frame presented_def)
  show "clock w + 2050 \<le> clock (handleRequest e (cardUID_of u) (presented u w))"
    using handleRequest_frame(4) [of "presented u w" e "cardUID_of u"]
    by (simp add: presented_def)
  show "lastUID (loop_card e (CardSerial u) w) = cardUID_of u"
    by (simp add: loop_card_accepted [OF fresh])
  show "lastCardRead (loop_card e (CardSerial u) w)
          = millis (handleRequest e (cardUID_of u) (presented u w))"
    by (simp add: loop_card_accepted [OF fresh])
qed

text \<open>The first turn, accepted, and the turn after it, suppressed.\<close>

theorem debounce_state_commit_witness:
  "\<not> (cardUID_of badge = lastUID (initial 0)
        \<and> millis (initial 0) - lastCardRead (initial 0) < 2000)
   \<and> lastUID (loop_card granting (CardSerial badge) (initial 0)) = ''DEADBEEF''
   \<and> lastCardRead (loop_card granting (CardSerial badge) (initial 0)) = 2350
   \<and> lastUID (handleRequest granting (cardUID_of badge) (presented badge (initial 0))) = []
   \<and> lastCardRead (handleRequest granting (cardUID_of badge) (presented badge (initial 0))) = 0
   \<and> (cardUID_of badge = lastUID (loop granting (CardSerial badge) (initial 0))
        \<and> millis (loop granting (CardSerial badge) (initial 0))
            - lastCardRead (loop granting (CardSerial badge) (initial 0)) < 2000)
   \<and> lastUID (loop_card granting (CardSerial badge)
         (loop granting (CardSerial badge) (initial 0))) = ''DEADBEEF''
   \<and> lastCardRead (loop_card granting (CardSerial badge)
         (loop granting (CardSerial badge) (initial 0))) = 2450"
proof -
  define w1 where "w1 = loop granting (CardSerial badge) (initial 0)"
  have w1: "lastUID w1 = ''DEADBEEF''" "lastCardRead w1 = 2350" "clock w1 = 2450"
    by (simp_all add: w1_def first_turn)
  have again: "cardUID_of badge = lastUID w1 \<and> millis w1 - lastCardRead w1 < 2000"
    by (simp add: w1 cardUID_of_card millis_def)
  have fresh: "\<not> (cardUID_of badge = lastUID (initial 0)
      \<and> millis (initial 0) - lastCardRead (initial 0) < 2000)"
    by (simp add: cardUID_of_card initial_def)
  have t0: "millis (handleRequest granting (cardUID_of badge) (presented badge (initial 0))) = 2350"
    by (simp add: handleRequest_granting presented_def initial_def millis_def)
  have init: "lastUID (initial 0) = []" "lastCardRead (initial 0) = 0"
    by (simp_all add: initial_def)
  from debounce_state_commit [of badge "initial 0" granting] fresh t0 init
  have "lastUID (loop_card granting (CardSerial badge) (initial 0)) = ''DEADBEEF''
   \<and> lastCardRead (loop_card granting (CardSerial badge) (initial 0)) = 2350
   \<and> lastUID (handleRequest granting (cardUID_of badge) (presented badge (initial 0))) = []
   \<and> lastCardRead (handleRequest granting (cardUID_of badge) (presented badge (initial 0))) = 0"
    by (simp add: cardUID_of_card)
  moreover from debounce_state_commit [of badge w1 granting] again w1
  have "lastUID (loop_card granting (CardSerial badge) w1) = ''DEADBEEF''
   \<and> lastCardRead (loop_card granting (CardSerial badge) w1) = 2450"
    by (simp add: millis_def)
  ultimately show ?thesis
    using fresh again unfolding w1_def by simp
qed

subsection \<open>An accepted card is committed\<close>

lemma handleRequest_offline:
  "handleRequest offline uid w =
    w\<lparr>clock := clock w + 2100,
      trace := trace w @ [SerialPrintln (''Request failed: no_wifi (Code: '' @ String_int (- 1) @ '')''),
                          EspSerialPrintln ''Request Failed''] @ failurePattern\<rparr>"
  by (rule handleRequest_down) (simp add: WiFi_connected_def offline_def)

text \<open>
  \<^bold>\<open>C6.\<close> When a card is accepted, the turn of the loop ends with the card's identifier
  stored and the stored timestamp equal to the current time, whatever the environment
  answered. In particular, with the link down at the time of the request the peer gets
  \<^verbatim>\<open>Request Failed\<close> and the state is stored all the same; and in any later world that
  still holds this state, within 2000 ms of the stored time, the same card is suppressed:
  no line for the peer, no feedback, no call on the HTTP client.
\<close>

theorem accepted_card_commits:
  assumes "\<not> (cardUID_of u = lastUID w \<and> millis w - lastCardRead w < 2000)"
  shows "lastUID (loop_card e (CardSerial u) w) = cardUID_of u
    \<and> lastCardRead (loop_card e (CardSerial u) w) = millis (loop_card e (CardSerial u) w)
    \<and> (\<not> linkUp e (clock w + 50) \<longrightarrow>
         peerLines (trace (loop_card e (CardSerial u) w))
           = peerLines (trace w) @ [''Request Failed'']
         \<and> lastUID (loop_card e (CardSerial u) w) = cardUID_of u
         \<and> lastCardRead (loop_card e (CardSerial u) w) = of_nat (clock w + 2150))
    \<and> (\<forall>e' w'. lastUID w' = lastUID (loop_card e (CardSerial u) w)
           \<and> lastCardRead w' = lastCardRead (loop_card e (CardSerial u) w)
           \<and> millis w' - lastCardRead w' < 2000 \<longrightarrow>
         peerLines (trace (readRFIDCard e' u w')) = peerLines (trace w')
         \<and> feedback (trace (readRFIDCard e' u w')) = feedback (trace w')
         \<and> httpCalls (trace (readRFIDCard e' u w')) = httpCalls (trace w'))"
proof (intro conjI impI allI)
  show id: "lastUID (loop_card e (CardSerial u) w) = cardUID_of u"
    by (simp add: loop_card_accepted [OF assms])
  show "lastCardRead (loop_card e (CardSerial u) w) = millis (loop_card e (CardSerial u) w)"
    by (simp add: loop_card_def Let_def millis_def)
  show "lastUID (loop_card e (CardSerial u) w) = cardUID_of u"
    by (rule id)
  {
    assume down: "\<not> linkUp e (clock w + 50)"
    then have off: "\<not> WiFi_connected e (presented u w)"
      by (simp add: WiFi_connected_def presented_def)
    show "peerLines (trace (loop_card e (CardSerial u) w))
           = peerLines (trace w) @ [''Request Failed'']"
      by (simp only: loop_card_accepted [OF assms] handleRequest_down [OF off])
         (simp add: presented_def peerLines_append peerLines_patterns)
    show "lastCardRead (loop_card e (CardSerial u) w) = of_nat (clock w + 2150)"
      by (simp only: loop_card_accepted [OF assms] handleRequest_down [OF off])
         (simp add: presented_def millis_def)
  }
  fix e' w'
  assume later: "lastUID w' = lastUID (loop_card e (CardSerial u) w)
           \<and> lastCardRead w' = lastCardRead (loop_card e (CardSerial u) w)
           \<and> millis w' - lastCardRead w' < 2000"
  then have "lastUID w' = lastUID (loop_card e (CardSerial u) w)"
    and recent: "millis w' - lastCardRead w' < 2000"
    by blast+
  with id have "cardUID_of u = lastUID w'"
    by simp
  with recent have held: "cardUID_of u = lastUID w' \<and> millis w' - lastCardRead w' < 2000"
    by blast
  show "peerLines (trace (readRFIDCard e' u w')) = peerLines (trace w')"
    "feedback (trace (readRFIDCard e' u w')) = feedback (trace w')"
    "httpCalls (trace (readRFIDCard e' u w')) = httpCalls (trace w')"
    by (rule suppressed_silent [OF held])+
qed


text \<open>The link down from boot: the request fails, the state is stored, and the card is
  suppressed in the next turn.\<close>

theorem accepted_card_commits_witness:
  "\<not> (cardUID_of badge = lastUID (initial 0)
        \<and> millis (initial 0) - lastCardRead (initial 0) < 2000)
   \<and> \<not> linkUp offline (clock (initial 0) + 50)
   \<and> peerLines (trace (loop_card offline (CardSerial badge) (initial 0))) = [''Request Failed'']
   \<and> lastUID (loop_card offline (CardSerial badge) (initial 0)) = ''DEADBEEF''
   \<and> lastCardRead (loop_card offline (CardSerial badge) (initial 0)) = 2150
   \<and> peerLines (trace (readRFIDCard offline badge (loop offline (CardSerial badge) (initial 0))))
       = [''Request Failed'']"
proof -
  define w1 where "w1 = loop_card offline (CardSerial badge) (initial 0)"
  define w2 where "w2 = loop offline (CardSerial badge) (initial 0)"
  have fresh: "\<not> (cardUID_of badge = lastUID (initial 0)
      \<and> millis (initial 0) - lastCardRead (initial 0) < 2000)"
    by (simp add: cardUID_of_card initial_def)
  have down: "\<not> linkUp offline (clock (initial 0) + 50)"
    by (simp add: offline_def)
  note commit = accepted_card_commits [OF fresh, of offline, folded w1_def]
  from commit down have w1: "lastUID w1 = ''DEADBEEF''" "lastCardRead w1 = 2150"
    "peerLines (trace w1) = [''Request Failed'']"
    by (auto simp add: cardUID_of_card initial_def)
  from loop_effect [of offline "CardSerial badge" "initial 0", folded w1_def w2_def]
  obtain t dt evs where
    "w2 = w1\<lparr>lastWifiCheck := t, clock := clock w1 + dt, trace := trace w1 @ evs\<rparr>"
    and "peerLines evs = []"
    by blast
  then have w2: "lastUID w2 = lastUID w1" "lastCardRead w2 = lastCardRead w1"
    "clock w2 = clock w1 + dt" "peerLines (trace w2) = [''Request Failed'']"
    by (simp_all add: peerLines_append w1)
  have "clock w1 = 2150" "lastWifiCheck w1 = 0"
    unfolding w1_def
    by (simp_all only: loop_card_accepted [OF fresh] handleRequest_offline)
       (simp_all add: presented_def initial_def)
  then have "loop_wifi offline w1 = w1"
    by (simp add: loop_wifi_def millis_def WIFI_CHECK_INTERVAL_def)
  then have "clock w2 = 2250"
    using \<open>clock w1 = 2150\<close> by (simp add: w2_def w1_def loop_def ops)
  then have "millis w2 - lastCardRead w2 < 2000"
    by (simp add: millis_def w2 w1)
  with commit w2 have "peerLines (trace (readRFIDCard offline badge w2)) = peerLines (trace w2)"
    by blast
  with w1 w2 fresh down show ?thesis
    unfolding w1_def w2_def by simp
qed

subsection \<open>An unreadable card, and the Wi-Fi connect loop\<close>

text \<open>
  \<^bold>\<open>C10.\<close> When a new card is detected and its serial cannot be read, the card branch
  prints a diagnostic line and plays the failure pattern, and nothing else; and over the
  whole turn of the loop, link check included, no line goes to the peer, no call is made
  on the HTTP client, and the stored identifier and timestamp stay as they were.
\<close>

theorem unreadable_card:
  "loop_card e ReadFailed w =
     w\<lparr>clock := clock w + 2100,
       trace := trace w @ SerialPrintln ''Failed to read card serial'' # failurePattern\<rparr>
   \<and> feedback (trace (loop_card e ReadFailed w)) = feedback (trace w) @ failurePattern
   \<and> peerLines (trace (loop e ReadFailed w)) = peerLines (trace w)
   \<and> httpCalls (trace (loop e ReadFailed w)) = httpCalls (trace w)
   \<and> lastUID (loop e ReadFailed w) = lastUID w
   \<and> lastCardRead (loop e ReadFailed w) = lastCardRead w"
proof -
  from loop_effect [of e ReadFailed w] obtain t dt evs where
    eq: "loop e ReadFailed w =
       (loop_card e ReadFailed w)\<lparr>lastWifiCheck := t,
          clock := clock (loop_card e ReadFailed w) + dt,
          trace := trace (loop_card e ReadFailed w) @ evs\<rparr>"
    and quiet: "peerLines evs = []" "httpCalls evs = []"
    by blast
  show ?thesis
    by (simp add: eq quiet loop_card_ReadFailed peerLines_append httpCalls_append
        feedback_append feedback_simps httpCalls_simps observe)
qed

lemma wifiConnect_frame:
  "lastUID (wifiConnect e w) = lastUID w"
  "lastCardRead (wifiConnect e w) = lastCardRead w"
  "lastWifiCheck (wifiConnect e w) = lastWifiCheck w"
  using wifiConnect_effect [of e w] by auto

text \<open>
  \<^bold>\<open>C9\<close>, as the specification words it, fails with the link down throughout:
  \<^verbatim>\<open>wifiConnect\<close> blocks for 20000 ticks of the clock that counts the debounce window of
  2000, not for at most 20. And it hands nothing back: the globals after a failed attempt
  are those after a successful one.
\<close>

theorem wifiConnect_timeout_counterexample:
  "clock (wifiConnect offline (initial 0)) = clock (initial 0) + 20000
   \<and> \<not> clock (wifiConnect offline (initial 0)) \<le> clock (initial 0) + 20
   \<and> lastUID (wifiConnect offline (initial 0)) = lastUID (wifiConnect granting (initial 0))
   \<and> lastCardRead (wifiConnect offline (initial 0))
       = lastCardRead (wifiConnect granting (initial 0))
   \<and> lastWifiCheck (wifiConnect offline (initial 0))
       = lastWifiCheck (wifiConnect granting (initial 0))"
proof -
  from wifiConnect_effect [of offline "initial 0"] obtain k where
    "wifiConnect offline (initial 0) =
       (initial 0)\<lparr>clock := clock (initial 0) + 500 * k,
         trace := trace (initial 0)
           @ [SerialPrint ''Connecting to WiFi: '', SerialPrintln WIFI_SSID,
              WifiMode, WifiBegin WIFI_SSID WIFI_PASSWORD]
           @ polls k
           @ (if linkUp offline (clock (initial 0) + 500 * k)
              then [SerialPrintln (CHR 0x0A # ''Connected to WiFi!''),
                    SerialPrint ''IP address: '', SerialPrintln (localIP offline)]
              else [SerialPrintln (CHR 0x0A # ''WiFi connection failed!''),
                    DigitalWrite RED_LED_PIN True])\<rparr>"
    and "linkUp offline (clock (initial 0) + 500 * k) \<or> k = 40"
    by blast
  moreover have "\<not> linkUp offline t" for t
    by (simp add: offline_def)
  ultimately show ?thesis by (simp add: wifiConnect_frame)
qed

text \<open>
  \<^bold>\<open>C9\<close>, amended. \<^verbatim>\<open>wifiConnect\<close> starts the connection once (one \<^verbatim>\<open>WiFi.begin\<close>, no
  retry), then polls the link status every 500 ms, for \<open>k\<close> polls with \<open>k \<le> 40\<close>, that is
  for at most 20000 ms: it stops at the first poll that finds the link up, and gives up
  after the fortieth. It returns nothing. When the link is up at the end it prints the
  address; when it is not, it switches the red LED on. It changes none of the globals.
\<close>

theorem wifiConnect_bounded_wait:
  "\<exists>k\<le>40.
     wifiConnect e w =
       w\<lparr>clock := clock w + 500 * k,
         trace := trace w
           @ [SerialPrint ''Connecting to WiFi: '', SerialPrintln WIFI_SSID,
              WifiMode, WifiBegin WIFI_SSID WIFI_PASSWORD]
           @ concat (replicate k [Delay 500, SerialPrint ''.''])
           @ (if linkUp e (clock w + 500 * k)
              then [SerialPrintln (CHR 0x0A # ''Connected to WiFi!''),
                    SerialPrint ''IP address: '', SerialPrintln (localIP e)]
              else [SerialPrintln (CHR 0x0A # ''WiFi connection failed!''),
                    DigitalWrite RED_LED_PIN True])\<rparr>
     \<and> (linkUp e (clock w + 500 * k) \<or> k = 40)
     \<and> (\<forall>i<k. \<not> linkUp e (clock w + 500 * i))"
  using wifiConnect_effect [of e w] by (simp add: polls_def)

text \<open>The link comes up after one second: two polls, and the LED stays off.\<close>

theorem wifiConnect_bounded_wait_witness:
  "wifiConnect lateLink (initial 0) =
     \<lparr>lastUID = [], lastCardRead = 0, lastWifiCheck = 0, clock = 1000,
      trace = [SerialPrint ''Connecting to WiFi: '', SerialPrintln WIFI_SSID,
               WifiMode, WifiBegin WIFI_SSID WIFI_PASSWORD,
               Delay 500, SerialPrint ''.'', Delay 500, SerialPrint ''.'',
               SerialPrintln (CHR 0x0A # ''Connected to WiFi!''),
               SerialPrint ''IP address: '', SerialPrintln ''192.168.1.7'']\<rparr>"
proof -
  from wifiConnect_bounded_wait [of lateLink "initial 0"] obtain k where
    k: "k \<le> 40"
    and eq: "wifiConnect lateLink (initial 0) =
       (initial 0)\<lparr>clock := clock (initial 0) + 500 * k,
         trace := trace (initial 0)
           @ [SerialPrint ''Connecting to WiFi: '', SerialPrintln WIFI_SSID,
              WifiMode, WifiBegin WIFI_SSID WIFI_PASSWORD]
           @ concat (replicate k [Delay 500, SerialPrint ''.''])
           @ (if linkUp lateLink (clock (initial 0) + 500 * k)
              then [SerialPrintln (CHR 0x0A # ''Connected to WiFi!''),
                    SerialPrint ''IP address: '', SerialPrintln (localIP lateLink)]
              else [SerialPrintln (CHR 0x0A # ''WiFi connection failed!''),
                    DigitalWrite RED_LED_PIN True])\<rparr>"
    and up: "linkUp lateLink (clock (initial 0) + 500 * k) \<or> k = 40"
    and down: "\<forall>i<k. \<not> linkUp lateLink (clock (initial 0) + 500 * i)"
    by blast
  have link: "linkUp lateLink t = (1000 \<le> t)" for t
    by (simp add: lateLink_def)
  from up have "2 \<le> k"
    by (auto simp add: link initial_def)
  moreover have "k \<le> 2"
  proof (rule ccontr)
    assume "\<not> k \<le> 2"
    then have "2 < k" by simp
    with down have "\<not> linkUp lateLink (clock (initial 0) + 500 * 2)" by blast
    then show False by (simp add: link)
  qed
  ultimately have "k = 2" by simp
  then have "replicate k [Delay 500, SerialPrint ''.''] = [[Delay 500, SerialPrint ''.''], [Delay 500, SerialPrint ''.'']]"
    by (simp add: numeral_2_eq_2)
  with \<open>k = 2\<close> show ?thesis
    by (simp add: eq link) (simp add: initial_def lateLink_def)
qed

end
